theory Spec2Isabelle
  imports Main "HOL-Library.Char_ord" "HOL-Library.List_Lexorder" "HOL-Library.Multiset"
begin

section \<open>JavaScript values used by config/commands.js\<close>

text \<open>
  A JavaScript string is a sequence of UTF-16 code units. The model writes it as a
  \<^typ>\<open>string\<close> whose characters are the code units below 256 (ASCII and Latin-1), so
  \<open>length\<close> counts what \<open>.length\<close> counts. The texts the handlers receive and the
  names of the catalog are such strings; the one operation that leaves them,
  \<open>toUpperCase\<close>, returns code units.
\<close>

subsection \<open>String methods\<close>

definition isWhiteSpace :: "char \<Rightarrow> bool" where
  \<comment> \<open>the white space and line terminator code units below 256\<close>
  "isWhiteSpace c =
     (c \<in> set [CHR 0x20, CHR 0x09, CHR 0x0A, CHR 0x0B, CHR 0x0C, CHR 0x0D, CHR 0xA0])"

definition trim :: "string \<Rightarrow> string" where
  "trim s = rev (dropWhile isWhiteSpace (rev (dropWhile isWhiteSpace s)))"

definition lowerChar :: "char \<Rightarrow> char" where
  \<comment> \<open>A-Z and the Latin-1 capitals (0xC0-0xDE without the multiplication sign 0xD7)\<close>
  "lowerChar c =
     (let n = (of_char c :: nat)
      in if (65 \<le> n \<and> n \<le> 90) \<or> (192 \<le> n \<and> n \<le> 222 \<and> n \<noteq> 215)
         then char_of (n + 32) else c)"

definition toLowerCase :: "string \<Rightarrow> string" where
  "toLowerCase s = map lowerChar s"

text \<open>
  \<open>toUpperCase\<close> takes two characters of the model out of it: the capital of the
  micro sign (0xB5) is U+039C and the capital of y with diaeresis (0xFF) is U+0178. A
  string that may hold such a code unit is given as the list of its code units.
\<close>

definition code_units :: "string \<Rightarrow> nat list" where
  \<comment> \<open>the code units of a string of the model\<close>
  "code_units s = map of_char s"

definition is_latin1 :: "nat list \<Rightarrow> bool" where
  \<comment> \<open>every code unit is below 256: the string is one of the model\<close>
  "is_latin1 w = list_all (\<lambda>n. n < 256) w"

definition of_code_units :: "nat list \<Rightarrow> string" where
  \<comment> \<open>the string of the model with the given code units, all below 256\<close>
  "of_code_units w = map char_of w"

definition toUpperCase1 :: "char \<Rightarrow> nat list" where
  \<comment> \<open>the code units of \<open>toUpperCase\<close> of a one-character string: a-z and the Latin-1
      small letters lose 32; the sharp s (0xDF) becomes SS, the micro sign (0xB5) becomes
      U+039C (924) and y with diaeresis (0xFF) becomes U+0178 (376)\<close>
  "toUpperCase1 c =
     (let n = (of_char c :: nat)
      in if (97 \<le> n \<and> n \<le> 122) \<or> (224 \<le> n \<and> n \<le> 254 \<and> n \<noteq> 247)
         then [n - 32]
         else if n = 223 then [83, 83]
         else if n = 181 then [924]
         else if n = 255 then [376]
         else [n])"

fun js_split :: "string \<Rightarrow> string \<Rightarrow> string list" where
  \<comment> \<open>\<open>s.split(sep)\<close> for a separator that is one of the given characters:
      \<open>s.split(',')\<close> is \<open>js_split '','' s\<close>, \<open>s.split(/[,/]/)\<close> is \<open>js_split '',/'' s\<close>\<close>
  "js_split seps [] = [[]]"
| "js_split seps (c # cs) =
     (if c \<in> set seps then [] # js_split seps cs
      else (case js_split seps cs of [] \<Rightarrow> [[c]] | w # ws \<Rightarrow> (c # w) # ws))"

fun indexOf :: "string \<Rightarrow> string \<Rightarrow> nat option" where
  \<comment> \<open>\<open>s.indexOf(p)\<close>; \<open>None\<close> is -1\<close>
  "indexOf [] p = (if p = [] then Some 0 else None)"
| "indexOf (c # cs) p =
     (if take (length p) (c # cs) = p then Some 0 else map_option Suc (indexOf cs p))"

definition slice :: "string \<Rightarrow> nat \<Rightarrow> nat \<Rightarrow> string" where
  \<comment> \<open>\<open>s.slice(a, b)\<close> for non-negative \<open>a\<close>, \<open>b\<close>\<close>
  "slice s a b = drop a (take b s)"

fun join :: "string \<Rightarrow> string list \<Rightarrow> string" where
  \<comment> \<open>\<open>xs.join(sep)\<close>\<close>
  "join sep [] = []"
| "join sep [x] = x"
| "join sep (x # y # ys) = x @ sep @ join sep (y # ys)"

definition digitChar :: "nat \<Rightarrow> char" where
  "digitChar d = char_of (48 + d)"

function String_nat :: "nat \<Rightarrow> string" where
  \<comment> \<open>\<open>String(n)\<close> and \<open>'' + n\<close> for a non-negative integer\<close>
  "String_nat n = (if n < 10 then [digitChar n] else String_nat (n div 10) @ [digitChar (n mod 10)])"
  by pat_completeness auto
termination
  by (relation "measure id") auto

declare String_nat.simps [simp del]

subsection \<open>parseInt\<close>

definition digitValue :: "nat \<Rightarrow> char \<Rightarrow> nat option" where
  \<comment> \<open>the value of a digit of the given radix (10 or 16)\<close>
  "digitValue radix c =
     (let n = (of_char c :: nat);
          v = (if 48 \<le> n \<and> n \<le> 57 then Some (n - 48)
               else if 97 \<le> n \<and> n \<le> 102 then Some (n - 87)
               else if 65 \<le> n \<and> n \<le> 70 then Some (n - 55)
               else None)
      in case v of None \<Rightarrow> None | Some d \<Rightarrow> if d < radix then Some d else None)"

fun digitsValue :: "nat \<Rightarrow> nat \<Rightarrow> string \<Rightarrow> nat" where
  \<comment> \<open>the value of the longest prefix of digits, from the accumulator\<close>
  "digitsValue radix acc [] = acc"
| "digitsValue radix acc (c # cs) =
     (case digitValue radix c of
        None \<Rightarrow> acc
      | Some d \<Rightarrow> digitsValue radix (acc * radix + d) cs)"

definition parseDigits :: "nat \<Rightarrow> string \<Rightarrow> nat option" where
  \<comment> \<open>\<open>None\<close> (NaN) when the string does not start with a digit\<close>
  "parseDigits radix s =
     (case s of [] \<Rightarrow> None
      | c # cs \<Rightarrow> (case digitValue radix c of None \<Rightarrow> None
                   | Some d \<Rightarrow> Some (digitsValue radix 0 s)))"

definition parseInt :: "string \<Rightarrow> int option" where
  \<comment> \<open>\<open>parseInt(s)\<close> with no radix argument (ECMAScript 5): white space, a sign, an
      optional 0x prefix, then the longest prefix of digits; \<open>None\<close> is NaN\<close>
  "parseInt s =
     (let s1 = dropWhile isWhiteSpace s;
          neg = (take 1 s1 = ''-'');
          s2 = (if take 1 s1 = ''-'' \<or> take 1 s1 = ''+'' then drop 1 s1 else s1);
          hex = (take 2 s2 = ''0x'' \<or> take 2 s2 = ''0X'');
          v = (if hex then parseDigits 16 (drop 2 s2) else parseDigits 10 s2)
      in case v of None \<Rightarrow> None
         | Some n \<Rightarrow> Some (if neg then - int n else int n))"

subsection \<open>Objects used as dictionaries\<close>

text \<open>
  An object literal used as a dictionary is an association list in insertion order:
  assigning to a key it has keeps the key's place, assigning to a new key appends it,
  \<open>delete\<close> removes it. Every such object inherits from \<open>Object.prototype\<close>: the
  \<open>in\<close> operator and a property read also see the inherited members.
\<close>

type_synonym 'v obj = "(string \<times> 'v) list"

definition object_prototype :: "string list" where
  "object_prototype = [''constructor'', ''toString'', ''toLocaleString'', ''valueOf'',
     ''hasOwnProperty'', ''isPrototypeOf'', ''propertyIsEnumerable'', ''__proto__'',
     ''__defineGetter__'', ''__defineSetter__'', ''__lookupGetter__'', ''__lookupSetter__'']"

definition obj_get :: "'v obj \<Rightarrow> string \<Rightarrow> 'v option" where
  \<comment> \<open>the own property \<open>o[k]\<close>\<close>
  "obj_get m k = map_of m k"

fun obj_put :: "'v obj \<Rightarrow> string \<Rightarrow> 'v \<Rightarrow> 'v obj" where
  "obj_put [] k v = [(k, v)]"
| "obj_put ((k', v') # ps) k v =
     (if k' = k then (k, v) # ps else (k', v') # obj_put ps k v)"

definition obj_set :: "'v obj \<Rightarrow> string \<Rightarrow> 'v \<Rightarrow> 'v obj" where
  \<comment> \<open>\<open>o[k] = v\<close> for a primitive \<open>v\<close>: assigning a primitive to \<open>__proto__\<close> is ignored\<close>
  "obj_set m k v = (if k = ''__proto__'' then m else obj_put m k v)"

definition obj_delete :: "'v obj \<Rightarrow> string \<Rightarrow> 'v obj" where
  \<comment> \<open>\<open>delete o[k]\<close>\<close>
  "obj_delete m k = filter (\<lambda>p. fst p \<noteq> k) m"

definition js_in :: "string \<Rightarrow> string list \<Rightarrow> bool" where
  \<comment> \<open>\<open>k in o\<close>, for an object with the given own keys\<close>
  "js_in k ks = (k \<in> set ks \<or> k \<in> set object_prototype)"

definition Object_count :: "bool obj \<Rightarrow> bool \<Rightarrow> nat" where
  \<comment> \<open>Sugar's \<open>Object.count(o, b)\<close>: the number of own values equal to \<open>b\<close>\<close>
  "Object_count m b = length (filter (\<lambda>p. snd p = b) m)"

definition prop_truthy :: "bool obj \<Rightarrow> string \<Rightarrow> bool" where
  \<comment> \<open>\<open>o[k]\<close> is truthy: an own \<open>true\<close>, or an inherited member (a function or object)\<close>
  "prop_truthy m k =
     (case obj_get m k of Some b \<Rightarrow> b | None \<Rightarrow> k \<in> set object_prototype)"

definition prop_false :: "bool obj \<Rightarrow> string \<Rightarrow> bool" where
  \<comment> \<open>\<open>o[k] === false\<close>\<close>
  "prop_false m k = (obj_get m k = Some False)"

section \<open>The collaborators of the command file\<close>

text \<open>
  \<open>Tools\<close> (the data provider), the command context \<open>this\<close>, the user registry and
  the random source are not part of config/commands.js; the handlers take them as
  parameters.
\<close>

record effect =
  \<comment> \<open>what \<open>Tools.getAbility\<close>, \<open>Tools.getMove\<close> and \<open>Tools.getType\<close> return\<close>
  e_exists :: bool
  e_name :: string
  e_id :: string

definition effect_toString :: "effect \<Rightarrow> string" where
  \<comment> \<open>Modelled from the spec: the string form of a move object (\<open>'"' + move + '"'\<close>) is
      defined by Tools, outside this file; the evaluation-phase error names the move, so
      the string form is the move's name.\<close>
  "effect_toString e = e_name e"

record template =
  \<comment> \<open>what \<open>Tools.getTemplate\<close> returns, with the fields the handlers read\<close>
  t_exists :: bool
  t_id :: string
  species :: string
  baseSpecies :: string
  types :: "string list"
  tier :: string
  gen :: nat
  color :: string
  isMega :: bool
  evos :: "string list"
  prevo :: "string option"
  abilities :: "string list"
  learnset :: "string list option"

record tools =
  getAbility :: "string \<Rightarrow> effect"
  getMove :: "nat list \<Rightarrow> effect"
  getType :: "string \<Rightarrow> effect"
  getTemplate :: "string \<Rightarrow> template"
  Pokedex :: "string list"
  TypeChart :: "string list"
  lc_banlist :: "string list"

text \<open>
  \<open>Tools.getMove\<close> is also called with the rewritten target of a type phrase, which
  can start with a code unit above 255: its argument is given by its code units.
  \<open>Pokedex\<close> and \<open>TypeChart\<close> are the keys of \<open>Tools.data.Pokedex\<close> and
  \<open>Tools.data.TypeChart\<close> in enumeration order, \<open>lc_banlist\<close> is
  \<open>Tools.data.Formats['lc'].banlist\<close>; \<open>abilities\<close> lists the values of a template's
  abilities object and \<open>learnset\<close> the keys of its learnset, when it has one.
\<close>

datatype event =
    SendReply string
  | SendReplyUnits "nat list"
  | SendReplyBox string
  | Parse string
  | BroadcastCheck bool
  | PermissionCheck string bool
  | SetRulesLink string
  | SetChatRoomRulesLink string
  | WriteChatRoomData
  | SetPotd string
  | SimulatorEval string
  | LobbyAddRaw string
  | LogModCommand string
  | RoomAdd string

text \<open>
  A handler's behaviour is the sequence of its calls on the context and of its
  assignments to shared state, in program order: the replies, the re-entrant
  \<open>this.parse\<close>, the consultations of \<open>this.canBroadcast()\<close> and \<open>this.can(...)\<close> with
  their answers, the writes to \<open>room.rulesLink\<close>, \<open>room.chatRoomData\<close> and
  \<open>config.potd\<close>, and the calls that hand a change on (to the room registry, the
  simulator process, the lobby, the room and the moderation log). By the header comment of
  commands.js, \<open>this.can\<close> gives the user the "Access denied" message itself when it
  answers false: \<open>PermissionCheck p False\<close> is that call with its one notice.
  \<open>SendReplyUnits w\<close> is \<open>this.sendReply\<close> with a text that holds a code unit above
  255, given by its code units; a text of the model is always sent as \<open>SendReply\<close>.
\<close>

definition sendReply_units :: "nat list \<Rightarrow> event" where
  \<comment> \<open>\<open>this.sendReply(text)\<close> for a text given by its code units\<close>
  "sendReply_units w = (if is_latin1 w then SendReply (of_code_units w) else SendReplyUnits w)"

record ctx =
  target :: string
  cmd :: string
  room_id :: string
  room_title :: string
  room_rulesLink :: "string option"
  room_chatRoomData :: bool
  broadcasting :: bool
  broadcast_ok :: bool
  broadcasting_after :: bool
  can :: "string \<Rightarrow> bool"
  Rooms_lobby :: bool
  user_name :: string
  Tools :: tools
  shuffle :: "string list \<Rightarrow> string list"
  sanitize :: "string \<Rightarrow> string"
  toId :: "string \<Rightarrow> string"
  body_rest :: "event list"

text \<open>
  \<open>room_rulesLink\<close> is \<open>room.rulesLink\<close> (\<open>None\<close> when undefined), \<open>room_chatRoomData\<close>
  says whether \<open>room.chatRoomData\<close> is set and \<open>Rooms_lobby\<close> whether \<open>Rooms.lobby\<close>
  is. \<open>broadcasting\<close> is \<open>this.broadcasting\<close> when the handler starts;
  \<open>broadcast_ok\<close> is the answer of \<open>this.canBroadcast()\<close> in this invocation and
  \<open>broadcasting_after\<close> the value of \<open>this.broadcasting\<close> it leaves; \<open>can p\<close> is the
  answer of the gate to \<open>this.can(p, ...)\<close> in this invocation.
  \<open>shuffle\<close> is the order in which \<open>sort\<close> with the random comparator leaves an array;
  \<open>sanitize\<close> and \<open>toId\<close> are the global functions of these names. \<open>body_rest\<close> is used by
  the handlers whose body, after its guard, reports what other collaborators compute
  (\<open>Tools.dataSearch\<close>, \<open>TeamValidator\<close>, \<open>process.uptime\<close>, \<open>Math.random\<close>, the type
  chart): it is the sequence of events of that part of the body.
\<close>

definition canBroadcast :: "ctx \<Rightarrow> bool \<times> ctx" where
  \<comment> \<open>\<open>this.canBroadcast()\<close> is defined by the command parser, outside this file:
      its answer and the state of \<open>this\<close> it leaves are those the context gives. By
      the header comment of commands.js it answers false when the user typed "!command"
      and may not broadcast, and otherwise sets the replies up to broadcast.\<close>
  "canBroadcast c = (broadcast_ok c, c\<lparr>broadcasting := broadcasting_after c\<rparr>)"

definition guarded :: "ctx \<Rightarrow> (ctx \<Rightarrow> event list) \<Rightarrow> event list" where
  \<comment> \<open>\<open>if (!this.canBroadcast()) return;\<close> followed by the rest of the body\<close>
  "guarded c body =
     (case canBroadcast c of
        (ok, c') \<Rightarrow> BroadcastCheck ok # (if ok then body c' else []))"

section \<open>dexsearch\<close>

subsection \<open>Parsing the search tokens\<close>

record searches =
  s_ability :: "bool obj option"
  s_tier :: "bool obj option"
  s_color :: "bool obj option"
  s_gen :: "bool obj option"
  s_types :: "bool obj option"
  s_moves :: "bool obj option"

record pstate =
  p_searches :: searches
  showAll :: bool
  megaSearch :: "bool option"

definition no_searches :: searches where
  "no_searches = \<lparr>s_ability = None, s_tier = None, s_color = None, s_gen = None,
     s_types = None, s_moves = None\<rparr>"

definition pstate0 :: pstate where
  "pstate0 = \<lparr>p_searches = no_searches, showAll = False, megaSearch = None\<rparr>"

definition Object_size :: "searches \<Rightarrow> nat" where
  \<comment> \<open>\<open>Object.size(searches)\<close>: the number of categories present\<close>
  "Object_size s = length (filter (\<lambda>x. x \<noteq> None)
     [s_ability s, s_tier s, s_color s, s_gen s, s_types s, s_moves s])"

definition the_obj :: "bool obj option \<Rightarrow> bool obj" where
  \<comment> \<open>\<open>if (!searches[c]) searches[c] = {}\<close>\<close>
  "the_obj x = (case x of None \<Rightarrow> [] | Some m \<Rightarrow> m)"

definition allTiers :: "string list" where
  "allTiers = [''uber'', ''ou'', ''lc'', ''cap'', ''bl'']"

definition allColours :: "string list" where
  "allColours = [''green'', ''red'', ''blue'', ''white'', ''brown'', ''yellow'', ''purple'',
     ''pink'', ''gray'', ''black'']"

definition output_cap :: nat where
  \<comment> \<open>\<open>var output = 10\<close>\<close>
  "output_cap = 10"

definition isNotSearch_of :: "string \<Rightarrow> bool" where
  \<comment> \<open>\<open>targets[i].trim().toLowerCase().slice(0,1) === '!'\<close>\<close>
  "isNotSearch_of raw = (take 1 (toLowerCase (trim raw)) = ''!'')"

definition target_of :: "string \<Rightarrow> string" where
  \<comment> \<open>\<open>target\<close> after the negation mark is taken off\<close>
  "target_of raw =
     (let t = toLowerCase (trim raw) in if take 1 t = ''!'' then drop 1 t else t)"

definition is_gen :: "string \<Rightarrow> bool" where
  \<comment> \<open>\<open>0 < parseInt(target) && parseInt(target) < 7\<close>\<close>
  "is_gen t = (case parseInt t of None \<Rightarrow> False | Some n \<Rightarrow> 0 < n \<and> n < 7)"

definition type_target :: "string \<Rightarrow> nat list" where
  \<comment> \<open>\<open>target\<close> after \<open>if (target.indexOf(' type') > -1) target =
      target.charAt(0).toUpperCase() + target.slice(1, target.indexOf(' type'))\<close>,
      by its code units\<close>
  "type_target t =
     (case indexOf t '' type'' of
        None \<Rightarrow> code_units t
      | Some i \<Rightarrow> (case t of [] \<Rightarrow> [] | c # cs \<Rightarrow> toUpperCase1 c)
                   @ code_units (slice t 1 i))"

definition units_in :: "nat list \<Rightarrow> string list \<Rightarrow> bool" where
  \<comment> \<open>\<open>target in o\<close> for a target given by its code units and an object whose own keys
      are strings of the model\<close>
  "units_in w ks = (is_latin1 w \<and> js_in (of_code_units w) ks)"

text \<open>
  The type branch overwrites \<open>target\<close> whenever the token holds " type", also when the
  word is no type; the move lookup and the final error message then see
  \<open>type_target target\<close>, which is \<open>target\<close> itself for a token without " type".
\<close>

definition parse_token :: "tools \<Rightarrow> bool \<Rightarrow> pstate \<Rightarrow> string \<Rightarrow> event + pstate" where
  \<comment> \<open>one round of the loop over \<open>targets\<close>; \<open>Inl\<close> is the reply of a \<open>return\<close>\<close>
  \<open>parse_token T bc st raw =
     (let isNotSearch = isNotSearch_of raw;
          target = target_of raw;
          s = p_searches st;
          targetAbility = getAbility T raw
      in
      if e_exists targetAbility then
        (if Object_count (the_obj (s_ability s)) True = 1 \<and> \<not> isNotSearch
         then Inl (SendReply ''Specify only one ability.'')
         else Inr (st\<lparr>p_searches := s\<lparr>s_ability :=
                 Some (obj_set (the_obj (s_ability s)) (e_name targetAbility) (\<not> isNotSearch))\<rparr>\<rparr>))
      else if js_in target allTiers then
        Inr (st\<lparr>p_searches := s\<lparr>s_tier :=
               Some (obj_set (the_obj (s_tier s)) target (\<not> isNotSearch))\<rparr>\<rparr>)
      else if js_in target allColours then
        Inr (st\<lparr>p_searches := s\<lparr>s_color :=
               Some (obj_set (the_obj (s_color s)) target (\<not> isNotSearch))\<rparr>\<rparr>)
      else if is_gen target then
        Inr (st\<lparr>p_searches := s\<lparr>s_gen :=
               Some (obj_set (the_obj (s_gen s)) target (\<not> isNotSearch))\<rparr>\<rparr>)
      else if target = ''all'' then
        (if bc then Inl (SendReply ''A search with the parameter "all" cannot be broadcast.'')
         else Inr (st\<lparr>showAll := True\<rparr>))
      else if target = ''megas'' \<or> target = ''mega'' then
        Inr (st\<lparr>megaSearch := Some (\<not> isNotSearch)\<rparr>)
      else if indexOf target '' type'' \<noteq> None \<and> units_in (type_target target) (TypeChart T) then
        (if Object_count (the_obj (s_types s)) True = 2 \<and> \<not> isNotSearch
         then Inl (SendReply ''Specify a maximum of two types.'')
         else Inr (st\<lparr>p_searches := s\<lparr>s_types :=
                 Some (obj_set (the_obj (s_types s)) (of_code_units (type_target target))
                         (\<not> isNotSearch))\<rparr>\<rparr>))
      else
        (let targetMove = getMove T (type_target target) in
         if e_exists targetMove then
           (if Object_count (the_obj (s_moves s)) True = 4 \<and> \<not> isNotSearch
            then Inl (SendReply ''Specify a maximum of 4 moves.'')
            else Inr (st\<lparr>p_searches := s\<lparr>s_moves :=
                    Some (obj_set (the_obj (s_moves s)) (e_name targetMove) (\<not> isNotSearch))\<rparr>\<rparr>))
         else Inl (sendReply_units (code_units ''"'' @ type_target target
                     @ code_units ''" could not be found in any of the search categories.''))))\<close>

fun parse_targets :: "tools \<Rightarrow> bool \<Rightarrow> pstate \<Rightarrow> string list \<Rightarrow> event + pstate" where
  \<comment> \<open>\<open>for (var i in targets)\<close>\<close>
  "parse_targets T bc st [] = Inr st"
| "parse_targets T bc st (raw # raws) =
     (case parse_token T bc st raw of
        Inl e \<Rightarrow> Inl e
      | Inr st' \<Rightarrow> parse_targets T bc st' raws)"

text \<open>
  The classes of tokens, as the cascade of \<open>parse_token\<close> tells them apart: a token
  that is no ability and no keyword (tier, colour, generation, "all", "mega") is a type
  when it holds " type" and its word is in the type chart, else a move when the move
  lookup finds it, else it is in no category.
\<close>

definition is_ability_token :: "tools \<Rightarrow> string \<Rightarrow> bool" where
  "is_ability_token T raw = e_exists (getAbility T raw)"

definition no_keyword :: "tools \<Rightarrow> string \<Rightarrow> bool" where
  "no_keyword T raw =
     (\<not> e_exists (getAbility T raw)
      \<and> \<not> js_in (target_of raw) allTiers \<and> \<not> js_in (target_of raw) allColours
      \<and> \<not> is_gen (target_of raw)
      \<and> target_of raw \<noteq> ''all'' \<and> target_of raw \<noteq> ''megas'' \<and> target_of raw \<noteq> ''mega'')"

definition type_found :: "tools \<Rightarrow> string \<Rightarrow> bool" where
  "type_found T raw =
     (indexOf (target_of raw) '' type'' \<noteq> None
      \<and> units_in (type_target (target_of raw)) (TypeChart T))"

definition is_type_token :: "tools \<Rightarrow> string \<Rightarrow> bool" where
  "is_type_token T raw = (no_keyword T raw \<and> type_found T raw)"

definition is_move_token :: "tools \<Rightarrow> string \<Rightarrow> bool" where
  "is_move_token T raw =
     (no_keyword T raw \<and> \<not> type_found T raw
      \<and> e_exists (getMove T (type_target (target_of raw))))"

definition unrecognised :: "tools \<Rightarrow> string \<Rightarrow> bool" where
  "unrecognised T raw =
     (no_keyword T raw \<and> \<not> type_found T raw
      \<and> \<not> e_exists (getMove T (type_target (target_of raw))))"

definition required_count :: "bool obj option \<Rightarrow> nat" where
  \<comment> \<open>the number of required (include = true) values of a category of the search spec\<close>
  "required_count x = Object_count (the_obj x) True"

definition types_keys_ok :: "pstate \<Rightarrow> bool" where
  \<comment> \<open>no type of the search spec is stored under the key "undefined"\<close>
  "types_keys_ok st = (''undefined'' \<notin> fst ` set (the_obj (s_types (p_searches st))))"

definition moves_keys_ok :: "tools \<Rightarrow> pstate \<Rightarrow> bool" where
  \<comment> \<open>every move of the search spec is a name that the move lookup resolves\<close>
  "moves_keys_ok T st =
     (\<forall>k \<in> fst ` set (the_obj (s_moves (p_searches st))). e_exists (getMove T (code_units k)))"

definition consistent_lookup :: "tools \<Rightarrow> bool" where
  \<comment> \<open>the move lookup resolves the name of every move it returns\<close>
  "consistent_lookup T =
     (\<forall>w. e_exists (getMove T w) \<longrightarrow> e_exists (getMove T (code_units (e_name (getMove T w)))))"

subsection \<open>The passes over the candidate set\<close>

definition legal :: "pstate \<Rightarrow> template \<Rightarrow> bool" where
  \<comment> \<open>the condition under which \<open>dex[pokemon] = template\<close> is executed\<close>
  "legal st t =
     (tier t \<noteq> ''Illegal''
      \<and> (tier t \<noteq> ''CAP''
         \<or> (s_tier (p_searches st) \<noteq> None \<and> prop_truthy (the_obj (s_tier (p_searches st))) ''cap''))
      \<and> (megaSearch st = None \<or> (megaSearch st = Some True \<and> isMega t)
         \<or> (megaSearch st = Some False \<and> \<not> isMega t)))"

definition initial_dex :: "tools \<Rightarrow> pstate \<Rightarrow> template obj" where
  \<comment> \<open>\<open>for (var pokemon in Tools.data.Pokedex)\<close>\<close>
  "initial_dex T st =
     map (\<lambda>pokemon. (pokemon, getTemplate T pokemon))
       (filter (\<lambda>pokemon. legal st (getTemplate T pokemon)) (Pokedex T))"

text \<open>
  The passes for types, tier, gen, color and ability run \<open>for (var mon in dex)\<close> with a
  body that at most deletes \<open>dex[mon]\<close>: the entries left are those the body keeps, in
  their order.
\<close>

definition type_key :: "template \<Rightarrow> nat \<Rightarrow> string" where
  \<comment> \<open>\<open>dex[mon].types[i]\<close> as a property key: a missing element is the key "undefined"\<close>
  "type_key t i = (if i < length (types t) then types t ! i else ''undefined'')"

definition types_delete :: "bool obj \<Rightarrow> template \<Rightarrow> bool" where
  \<comment> \<open>the condition of \<open>delete dex[mon]\<close> in \<open>case 'types'\<close>\<close>
  "types_delete m t =
     (if Object_count m True = 2
      then \<not> prop_truthy m (type_key t 0) \<or> \<not> prop_truthy m (type_key t 1)
      else prop_false m (type_key t 0) \<or> prop_false m (type_key t 1)
           \<or> (Object_count m True > 0
               \<and> \<not> prop_truthy m (type_key t 0) \<and> \<not> prop_truthy m (type_key t 1)))"

definition types_pass :: "bool obj \<Rightarrow> template obj \<Rightarrow> template obj" where
  "types_pass m dex = filter (\<lambda>(mon, t). \<not> types_delete m t) dex"

definition field_delete :: "bool obj \<Rightarrow> string \<Rightarrow> bool" where
  \<comment> \<open>the two deletions on \<open>String(dex[mon][search]).toLowerCase()\<close>, shared by the
      tier, gen and color cases\<close>
  "field_delete m v =
     (if prop_false m (toLowerCase v) then True
      else Object_count m True > 0 \<and> \<not> prop_truthy m (toLowerCase v))"

definition isLC :: "tools \<Rightarrow> template \<Rightarrow> bool" where
  \<comment> \<open>\<open>(evos && evos.length > 0) && !prevo && banlist.indexOf(species) === -1\<close>\<close>
  "isLC T t =
     (length (evos t) > 0 \<and> (prevo t = None \<or> prevo t = Some [])
      \<and> species t \<notin> set (lc_banlist T))"

definition tier_delete :: "tools \<Rightarrow> bool obj \<Rightarrow> template \<Rightarrow> bool" where
  \<comment> \<open>the body of the loop in \<open>case 'tier'\<close>\<close>
  "tier_delete T m t =
     (if js_in ''lc'' (map fst m)
         \<and> ((prop_truthy m ''lc'' \<and> \<not> isLC T t) \<or> (\<not> prop_truthy m ''lc'' \<and> isLC T t))
      then True
      else field_delete m (tier t))"

definition tier_pass :: "tools \<Rightarrow> bool obj \<Rightarrow> template obj \<Rightarrow> template obj" where
  "tier_pass T m dex = filter (\<lambda>(mon, t). \<not> tier_delete T m t) dex"

definition gen_pass :: "bool obj \<Rightarrow> template obj \<Rightarrow> template obj" where
  "gen_pass m dex = filter (\<lambda>(mon, t). \<not> field_delete m (String_nat (gen t))) dex"

definition color_pass :: "bool obj \<Rightarrow> template obj \<Rightarrow> template obj" where
  "color_pass m dex = filter (\<lambda>(mon, t). \<not> field_delete m (color t)) dex"

definition ability_delete :: "bool obj \<Rightarrow> template \<Rightarrow> bool" where
  \<comment> \<open>some searched ability has \<open>hasAbility !== needsAbility\<close>\<close>
  "ability_delete m t =
     list_ex (\<lambda>(ability, needsAbility). (ability \<in> set (abilities t)) \<noteq> needsAbility) m"

definition ability_pass :: "bool obj \<Rightarrow> template obj \<Rightarrow> template obj" where
  "ability_pass m dex = filter (\<lambda>(mon, t). \<not> ability_delete m t) dex"

subsection \<open>The moves pass\<close>

text \<open>
  The moves pass stores \<open>false\<close> in \<open>dex\<close> beside templates. Its loops assign to and
  delete from \<open>dex\<close> while they enumerate it: \<open>for (var mon in dex)\<close> visits the keys
  that \<open>dex\<close> has when the loop starts, in their order, and skips one that is gone when
  its turn comes; a key added meanwhile is not visited. In the first loop only the key
  being visited changes, so each key is visited with the template it started with.
\<close>

datatype slot = Tmpl template | JsFalse

definition canLearn :: "string list \<Rightarrow> effect \<Rightarrow> bool" where
  \<comment> \<open>\<open>(learnset.sketch && !(move.id in {chatter, struggle, magikarpsrevenge}))
      || learnset[move.id]\<close>\<close>
  "canLearn ls move =
     ((''sketch'' \<in> set ls
        \<and> \<not> js_in (e_id move) [''chatter'', ''struggle'', ''magikarpsrevenge''])
      \<or> js_in (e_id move) ls)"

fun moves_inner :: "tools \<Rightarrow> string list \<Rightarrow> string \<Rightarrow> bool obj \<Rightarrow> slot obj \<Rightarrow> event + slot obj" where
  \<comment> \<open>\<open>for (var i in searches[search])\<close> for one \<open>mon\<close>\<close>
  \<open>moves_inner T ls mon [] dex = Inr dex\<close>
| \<open>moves_inner T ls mon ((i, required) # rest) dex =
     (let move = getMove T (code_units i) in
      if \<not> e_exists move
      then Inl (SendReplyBox (''"'' @ effect_toString move @ ''" is not a known move.''))
      else moves_inner T ls mon rest
             (if \<not> canLearn ls move \<and> required then obj_delete dex mon
              else if \<not> required \<and> canLearn ls move then obj_put dex mon JsFalse
              else dex))\<close>

definition learnset_template :: "tools \<Rightarrow> template \<Rightarrow> template" where
  \<comment> \<open>\<open>template = Tools.getTemplate(dex[mon].id);
      if (!template.learnset) template = Tools.getTemplate(template.baseSpecies)\<close>\<close>
  "learnset_template T d =
     (let template = getTemplate T (t_id d)
      in if learnset template = None then getTemplate T (baseSpecies template) else template)"

fun moves_loop1 :: "tools \<Rightarrow> bool obj \<Rightarrow> template obj \<Rightarrow> slot obj \<Rightarrow> event + slot obj" where
  "moves_loop1 T m [] dex = Inr dex"
| "moves_loop1 T m ((mon, d) # rest) dex =
     (case learnset (learnset_template T d) of
        None \<Rightarrow> moves_loop1 T m rest dex
      | Some ls \<Rightarrow>
          (case moves_inner T ls mon m dex of
             Inl e \<Rightarrow> Inl e
           | Inr dex' \<Rightarrow> moves_loop1 T m rest dex'))"

fun evo_loop :: "tools \<Rightarrow> string list \<Rightarrow> slot obj \<Rightarrow> slot obj" where
  \<comment> \<open>\<open>for (var evo in dex[mon].evos)
        if (dex[evos[evo]] !== false) dex[evos[evo]] = Tools.getTemplate(evos[evo])\<close>\<close>
  "evo_loop T [] dex = dex"
| "evo_loop T (e # es) dex =
     evo_loop T es
       (if obj_get dex e \<noteq> Some JsFalse then obj_put dex e (Tmpl (getTemplate T e)) else dex)"

fun moves_loop2 :: "tools \<Rightarrow> string list \<Rightarrow> slot obj \<Rightarrow> slot obj" where
  "moves_loop2 T [] dex = dex"
| "moves_loop2 T (mon # ks) dex =
     (case obj_get dex mon of
        None \<Rightarrow> moves_loop2 T ks dex
      | Some s \<Rightarrow>
          (let dex1 = (case s of
                         Tmpl d \<Rightarrow> if length (evos d) > 0 then evo_loop T (evos d) dex else dex
                       | JsFalse \<Rightarrow> dex);
               dex2 = (if obj_get dex1 mon = Some JsFalse then obj_delete dex1 mon else dex1)
           in moves_loop2 T ks dex2))"

definition templates_of :: "slot obj \<Rightarrow> template obj" where
  \<comment> \<open>the entries that hold a template\<close>
  "templates_of dex =
     concat (map (\<lambda>(mon, s). case s of Tmpl d \<Rightarrow> [(mon, d)] | JsFalse \<Rightarrow> []) dex)"

definition moves_pass :: "tools \<Rightarrow> bool obj \<Rightarrow> template obj \<Rightarrow> event + template obj" where
  "moves_pass T m dex =
     (case moves_loop1 T m dex (map (\<lambda>(mon, d). (mon, Tmpl d)) dex) of
        Inl e \<Rightarrow> Inl e
      | Inr dex1 \<Rightarrow> Inr (templates_of (moves_loop2 T (map fst dex1) dex1)))"

subsection \<open>The command\<close>

definition opt_pass :: "'a option \<Rightarrow> ('a \<Rightarrow> 'b \<Rightarrow> 'b) \<Rightarrow> 'b \<Rightarrow> 'b" where
  \<comment> \<open>\<open>if (!searches[search]) continue\<close>\<close>
  "opt_pass x f dex = (case x of None \<Rightarrow> dex | Some m \<Rightarrow> f m dex)"

definition filter_dex :: "tools \<Rightarrow> pstate \<Rightarrow> event + template obj" where
  \<comment> \<open>\<open>for (var search in {'moves':1,'types':1,'ability':1,'tier':1,'gen':1,'color':1})\<close>\<close>
  "filter_dex T st =
     (let s = p_searches st; dex0 = initial_dex T st in
      case (case s_moves s of None \<Rightarrow> Inr dex0 | Some m \<Rightarrow> moves_pass T m dex0) of
        Inl e \<Rightarrow> Inl e
      | Inr dex1 \<Rightarrow>
          Inr (opt_pass (s_color s) color_pass
              (opt_pass (s_gen s) gen_pass
              (opt_pass (s_tier s) (tier_pass T)
              (opt_pass (s_ability s) ability_pass
              (opt_pass (s_types s) types_pass dex1))))))"

definition string_global :: "nat \<Rightarrow> string" where
  \<comment> \<open>Modelled from the spec: the global \<open>string()\<close> is defined by the application,
      outside this file; the reply "states how many further matches exist", so it
      renders the number in decimal.\<close>
  "string_global n = String_nat n"

definition resultsStr :: "(string list \<Rightarrow> string list) \<Rightarrow> bool \<Rightarrow> string list \<Rightarrow> string" where
  \<open>resultsStr shuf all results =
     (if length results > 0 then
        (if all \<or> length results \<le> output_cap
         then join '', '' (sort results)
         else join '', '' (take 10 (shuf results)) @ '', and ''
              @ string_global (length results - output_cap)
              @ '' more. Redo the search with "all" as a search parameter to show all results.'')
      else ''No Pok'' @ [CHR 0xE9] @ ''mon found.'')\<close>

definition dexsearch :: "ctx \<Rightarrow> event list" where
  \<comment> \<open>line 268\<close>
  \<open>dexsearch c = guarded c (\<lambda>c.
     if target c = [] then [Parse ''/help dexsearch'']
     else
       (case parse_targets (Tools c) (broadcasting c) pstate0 (js_split '','' (target c)) of
          Inl e \<Rightarrow> [e]
        | Inr st \<Rightarrow>
            if showAll st \<and> Object_size (p_searches st) = 0 \<and> megaSearch st = None
            then [SendReply (''No search parameters other than "all" were found.''
                    @ [CHR 0x0A]
                    @ ''Try "/help dexsearch" for more information on this command.'')]
            else
              (case filter_dex (Tools c) st of
                 Inl e \<Rightarrow> [e]
               | Inr dex \<Rightarrow>
                   [SendReplyBox (resultsStr (shuffle c) (showAll st)
                      (map (\<lambda>(speciesid, t). species t) dex))])))\<close>

section \<open>The handlers that consult canBroadcast\<close>

subsection \<open>Handlers with a body of their own\<close>

definition data :: "ctx \<Rightarrow> event list" where
  \<comment> \<open>line 247; the body reports \<open>Tools.dataSearch(target)\<close>\<close>
  "data c = guarded c (\<lambda>c. body_rest c)"

definition learn :: "ctx \<Rightarrow> event list" where
  \<comment> \<open>line 458; the body reports \<open>TeamValidator.checkLearnsetSync\<close>\<close>
  "learn c =
     (if target c = [] then [Parse ''/help learn'']
      else guarded c (\<lambda>c. body_rest c))"

datatype searchMethod = M_getType | M_getMove | M_getTemplate

definition found_exists :: "tools \<Rightarrow> searchMethod \<Rightarrow> string \<Rightarrow> bool" where
  \<comment> \<open>\<open>Tools[method](s).exists\<close>\<close>
  "found_exists T method s =
     (case method of
        M_getType \<Rightarrow> e_exists (getType T s)
      | M_getMove \<Rightarrow> e_exists (getMove T (code_units s))
      | M_getTemplate \<Rightarrow> t_exists (getTemplate T s))"

fun search_data :: "tools \<Rightarrow> searchMethod list \<Rightarrow> string \<Rightarrow> (searchMethod \<times> bool) option" where
  \<comment> \<open>\<open>for (var method in searchMethods) { foundData = Tools[method](s);
      if (foundData.exists) break; }\<close>: the last \<open>method\<close> and \<open>foundData.exists\<close>\<close>
  "search_data T [] s = None"
| "search_data T [method] s = Some (method, found_exists T method s)"
| "search_data T (method # m # ms) s =
     (if found_exists T method s then Some (method, True) else search_data T (m # ms) s)"

definition sourceMethods :: "searchMethod list" where
  "sourceMethods = [M_getType, M_getMove]"

definition targetMethods :: "searchMethod list" where
  "targetMethods = [M_getType, M_getTemplate]"

definition effectiveness :: "ctx \<Rightarrow> event list" where
  \<comment> \<open>line 558. In the first round \<open>source\<close> and \<open>defender\<close> are unset, so the round
      sets one of them and switches \<open>searchMethods\<close>; the second round has no
      \<open>return\<close> after its lookup. The body after the guard reports the type chart.\<close>
  "effectiveness c =
     (let targets = take 2 (js_split '',/'' (target c)) in
      if length targets \<noteq> 2
      then [SendReply ''Attacker and defender must be separated with a comma.'']
      else
        (case search_data (Tools c) [M_getType, M_getMove, M_getTemplate] (targets ! 0) of
           None \<Rightarrow> [Parse ''/help effectiveness'']
         | Some (method, found) \<Rightarrow>
             if \<not> found then [Parse ''/help effectiveness'']
             else
               (let searchMethods =
                      (if method \<in> set sourceMethods then targetMethods
                       else if method \<in> set targetMethods then sourceMethods
                       else [M_getType, M_getMove, M_getTemplate])
                in case search_data (Tools c) searchMethods (targets ! 1) of
                     None \<Rightarrow> [Parse ''/help effectiveness'']
                   | Some (method1, found1) \<Rightarrow>
                       if \<not> found1 then [Parse ''/help effectiveness'']
                       else guarded c (\<lambda>c. body_rest c))))"

definition uptime :: "ctx \<Rightarrow> event list" where
  \<comment> \<open>line 611; the body reports \<open>process.uptime()\<close>\<close>
  "uptime c = guarded c (\<lambda>c. body_rest c)"

definition smogdex :: "ctx \<Rightarrow> event list" where
  \<comment> \<open>line 905; the body reports the Tools lookups of the target\<close>
  "smogdex c = guarded c (\<lambda>c. body_rest c)"

definition dice :: "ctx \<Rightarrow> event list" where
  \<comment> \<open>line 1147; the body reports \<open>Math.random()\<close>\<close>
  "dice c = guarded c (\<lambda>c. body_rest c)"

definition rulesLink_set :: "ctx \<Rightarrow> bool" where
  \<comment> \<open>\<open>room.rulesLink\<close> is truthy\<close>
  "rulesLink_set c = (case room_rulesLink c of None \<Rightarrow> False | Some l \<Rightarrow> l \<noteq> [])"

definition rules_text :: "ctx \<Rightarrow> string" where
  \<comment> \<open>the text of the reply of rules without a target\<close>
  \<open>rules_text c =
     ''Please follow the rules:<br />'' @
     (if rulesLink_set c
      then ''- <a href="'' @ sanitize c (the (room_rulesLink c)) @ ''">''
           @ sanitize c (room_title c) @ '' room rules</a><br />''
      else []) @
     ''- <a href="http://pokemonshowdown.com/rules">'' @
     (if rulesLink_set c then ''Global rules'' else ''Rules'') @ ''</a><br />'' @
     ''</div>''\<close>

definition rules :: "ctx \<Rightarrow> event list" where
  \<comment> \<open>line 794\<close>
  \<open>rules c =
     (if target c = [] then guarded c (\<lambda>c. [SendReplyBox (rules_text c)])
      else if \<not> can c ''roommod'' then [PermissionCheck ''roommod'' False]
      else PermissionCheck ''roommod'' True #
        (if length (target c) > 80
         then [SendReply (''Error: Room rules link is too long (must be under 80 characters). ''
                 @ ''You can use a URL shortener to shorten the link.'')]
         else [SetRulesLink (trim (target c)),
               SendReply (''(The room rules link is now: '' @ target c @ '')'')]
              @ (if room_chatRoomData c
                 then [SetChatRoomRulesLink (trim (target c)), WriteChatRoomData]
                 else [])))\<close>

definition roomhelp_text :: string where
  \<comment> \<open>the text of the reply of roomhelp\<close>
  \<open>roomhelp_text =
     ''Room drivers (%) can use:<br />'' @
     ''- /warn OR /k <em>username</em>: warn a user and show the Pokemon Showdown rules<br />'' @
     ''- /mute OR /m <em>username</em>: 7 minute mute<br />'' @
     ''- /hourmute OR /hm <em>username</em>: 60 minute mute<br />'' @
     ''- /unmute <em>username</em>: unmute<br />'' @
     ''- /announce OR /wall <em>message</em>: make an announcement<br />'' @
     ''<br />'' @
     ''Room moderators (@) can also use:<br />'' @
     ''- /roomban OR /rb <em>username</em>: bans user from the room<br />'' @
     ''- /roomunban <em>username</em>: unbans user from the room<br />'' @
     ''- /roomvoice <em>username</em>: appoint a room voice<br />'' @
     ''- /roomdevoice <em>username</em>: remove a room voice<br />'' @
     ''- /modchat <em>[off/autoconfirmed/+]</em>: set modchat level<br />'' @
     ''<br />'' @
     ''Room owners (#) can also use:<br />'' @
     ''- /roomdesc <em>description</em>: set the room description on the room join page<br />'' @
     ''- /rules <em>rules link</em>: set the room rules link seen when using /rules<br />'' @
     ''- /roommod, /roomdriver <em>username</em>: appoint a room moderator/driver<br />'' @
     ''- /roomdemod, /roomdedriver <em>username</em>: remove a room moderator/driver<br />'' @
     ''- /modchat <em>[%/@/#]</em>: set modchat level<br />'' @
     ''- /declare <em>message</em>: make a global declaration<br />'' @
     ''</div>''\<close>

definition roomhelp :: "ctx \<Rightarrow> event list" where
  \<comment> \<open>line 755\<close>
  \<open>roomhelp c =
     (if room_id c = ''lobby'' then [SendReply ''This command is too spammy for lobby.'']
      else guarded c (\<lambda>c. [SendReplyBox roomhelp_text]))\<close>

definition restarthelp_text :: string where
  \<comment> \<open>the text of the reply of restarthelp\<close>
  \<open>restarthelp_text =
     ''The server is restarting. Things to know:<br />'' @
     ''- We wait a few minutes before restarting so people can finish up their battles<br />'' @
     ''- The restart itself will take around 0.6 seconds<br />'' @
     ''- Your ladder ranking and teams will not change<br />'' @
     ''- We are restarting to update Pok'' @ [CHR 0xE9] @ ''mon Showdown to a newer version'' @
     ''</div>''\<close>

definition restarthelp :: "ctx \<Rightarrow> event list" where
  \<comment> \<open>line 782\<close>
  \<open>restarthelp c =
     (if room_id c = ''lobby'' \<and> \<not> can c ''lockdown'' then [PermissionCheck ''lockdown'' False]
      else (if room_id c = ''lobby'' then [PermissionCheck ''lockdown'' True] else []) @
        guarded c (\<lambda>c. [SendReplyBox restarthelp_text]))\<close>

subsection \<open>Handlers that reply with a text\<close>

definition groups :: "ctx \<Rightarrow> event list" where
  \<comment> \<open>line 626\<close>
  \<open>groups c = guarded c (\<lambda>c.
     [SendReplyBox
       (''+ <b>Voice</b> - They can use ! commands like !groups, and talk during moderated chat<br />'' @
        ''% <b>Driver</b> - The above, and they can mute. Global % can also lock users and check for alts<br />'' @
        ''@ <b>Moderator</b> - The above, and they can ban users<br />'' @
        ''&amp; <b>Leader</b> - The above, and they can promote to moderator and force ties<br />'' @
        ''~ <b>Administrator</b> - They can do anything, like change what this message says<br />'' @
        ''# <b>Room Owner</b> - They are administrators of the room and can almost totally control it'')])\<close>

definition website :: "ctx \<Rightarrow> event list" where
  \<comment> \<open>line 636\<close>
  \<open>website c = guarded c (\<lambda>c.
     [SendReplyBox
       ('' <b>Website League</b> - <a href="http://leaf-league.weebly.com/">Click Here</a><br />'')])\<close>

definition forum :: "ctx \<Rightarrow> event list" where
  \<comment> \<open>line 641\<close>
  \<open>forum c = guarded c (\<lambda>c.
     [SendReplyBox
       ('' <b>League Forum</b> - <a href="http://leaf-league.forumotion.com/">Click Here</a> Fourm<br />'')])\<close>

definition opensource :: "ctx \<Rightarrow> event list" where
  \<comment> \<open>line 648\<close>
  \<open>opensource c = guarded c (\<lambda>c.
     [SendReplyBox
       (''Pokemon Showdown is open source:<br />- Language: JavaScript<br />- <a href="https://github.com/Zarel/Pokemon-Showdown/commits/master">What's new?</a><br />- <a href="https://github.com/Zarel/Pokemon-Showdown">Server source code</a><br />- <a href="https://github.com/Zarel/Pokemon-Showdown-Client">Client source code</a>'')])\<close>

definition avatars :: "ctx \<Rightarrow> event list" where
  \<comment> \<open>line 653\<close>
  \<open>avatars c = guarded c (\<lambda>c.
     [SendReplyBox
       (''Your avatar can be changed using the Options menu (it looks like a gear) in the upper right of Pokemon Showdown. Custom avatars are only obtainable by staff.'')])\<close>

definition intro :: "ctx \<Rightarrow> event list" where
  \<comment> \<open>line 659\<close>
  \<open>intro c = guarded c (\<lambda>c.
     [SendReplyBox
       (''New to competitive pokemon?<br />'' @
        ''- <a href="http://www.smogon.com/forums/threads/3496279/">Beginner's Guide to Pok'' @ [CHR 0xE9] @ ''mon Showdown</a><br />'' @
        ''- <a href="http://www.smogon.com/dp/articles/intro_comp_pokemon">An introduction to competitive Pok'' @ [CHR 0xE9] @ ''mon</a><br />'' @
        ''- <a href="http://www.smogon.com/bw/articles/bw_tiers">What do "OU", "UU", etc mean?</a><br />'' @
        ''- <a href="http://www.smogon.com/xyhub/tiers">What are the rules for each format? What is "Sleep Clause"?</a>'')])\<close>

definition smogintro :: "ctx \<Rightarrow> event list" where
  \<comment> \<open>line 670\<close>
  \<open>smogintro c = guarded c (\<lambda>c.
     [SendReplyBox
       (''Welcome to Smogon's Official Pok'' @ [CHR 0xE9] @ ''mon Showdown server! The Mentoring room can be found '' @
        ''<a href="http://play.pokemonshowdown.com/mentoring">here</a> or by using /join mentoring.<br /><br />'' @
        ''Here are some useful links to Smogon's Mentorship Program to help you get integrated into the community:<br />'' @
        ''- <a href="http://www.smogon.com/mentorship/primer">Smogon Primer: A brief introduction to Smogon's subcommunities</a><br />'' @
        ''- <a href="http://www.smogon.com/mentorship/introductions">Introduce yourself to Smogon!</a><br />'' @
        ''- <a href="http://www.smogon.com/mentorship/profiles">Profiles of current Smogon Mentors</a><br />'' @
        ''- <a href="http://mibbit.com/#mentor@irc.synirc.net">#mentor: the Smogon Mentorship IRC channel</a><br />'' @
        ''All of these links and more can be found at the <a href="http://www.smogon.com/mentorship/">Smogon Mentorship Program's hub</a>.'')])\<close>

definition calc :: "ctx \<Rightarrow> event list" where
  \<comment> \<open>line 683\<close>
  \<open>calc c = guarded c (\<lambda>c.
     [SendReplyBox
       (''Pokemon Showdown! damage calculator. (Courtesy of Honko)<br />'' @
        ''- <a href="http://pokemonshowdown.com/damagecalc/">Damage Calculator</a>'')])\<close>

definition cap :: "ctx \<Rightarrow> event list" where
  \<comment> \<open>line 689\<close>
  \<open>cap c = guarded c (\<lambda>c.
     [SendReplyBox
       (''An introduction to the Create-A-Pokemon project:<br />'' @
        ''- <a href="http://www.smogon.com/cap/">CAP project website and description</a><br />'' @
        ''- <a href="http://www.smogon.com/forums/showthread.php?t=48782">What Pokemon have been made?</a><br />'' @
        ''- <a href="http://www.smogon.com/forums/showthread.php?t=3464513">Talk about the metagame here</a><br />'' @
        ''- <a href="http://www.smogon.com/forums/showthread.php?t=3466826">Practice BW CAP teams</a>'')])\<close>

definition gennext :: "ctx \<Rightarrow> event list" where
  \<comment> \<open>line 698\<close>
  \<open>gennext c = guarded c (\<lambda>c.
     [SendReplyBox
       (''NEXT (also called Gen-NEXT) is a mod that makes changes to the game:<br />'' @
        ''- <a href="https://github.com/Zarel/Pokemon-Showdown/blob/master/mods/gennext/README.md">README: overview of NEXT</a><br />'' @
        ''Example replays:<br />'' @
        ''- <a href="http://pokemonshowdown.com/replay/gennextou-37815908">roseyraid vs Zarel</a><br />'' @
        ''- <a href="http://pokemonshowdown.com/replay/gennextou-37900768">QwietQwilfish vs pickdenis</a>'')])\<close>

definition othermetas :: "ctx \<Rightarrow> event list" where
  \<comment> \<open>line 708\<close>
  \<open>othermetas c = guarded c (\<lambda>c.
     (let target = toId c (target c);
          buffer = [];
          matched = False;
          (matched, buffer) =
            (if target = [] \<or> target = ''all''
             then (True, buffer @ ''- <a href="http://www.smogon.com/forums/forums/206/">Information on the Other Metagames</a><br />'')
             else (matched, buffer));
          (matched, buffer) =
            (if target = ''all'' \<or> target = ''hackmons''
             then (True, buffer @ ''- <a href="http://www.smogon.com/forums/threads/3475624/">Hackmons</a><br />'')
             else (matched, buffer));
          (matched, buffer) =
            (if target = ''all'' \<or> target = ''balancedhackmons'' \<or> target = ''bh''
             then (True, buffer @ ''- <a href="http://www.smogon.com/forums/threads/3463764/">Balanced Hackmons</a><br />'')
             else (matched, buffer));
          (matched, buffer) =
            (if target = ''all'' \<or> target = ''glitchmons''
             then (True, buffer @ ''- <a href="http://www.smogon.com/forums/threads/3467120/">Glitchmons</a><br />'')
             else (matched, buffer));
          (matched, buffer) =
            (if target = ''all'' \<or> target = ''tiershift'' \<or> target = ''ts''
             then (True, buffer @ ''- <a href="http://www.smogon.com/forums/threads/3479358/">Tier Shift</a><br />'')
             else (matched, buffer));
          (matched, buffer) =
            (if target = ''all'' \<or> target = ''seasonal''
             then (True, buffer @ ''- <a href="http://www.smogon.com/sim/seasonal">Seasonal Ladder</a><br />'')
             else (matched, buffer));
          (matched, buffer) =
            (if target = ''all'' \<or> target = ''stabmons''
             then (True, buffer @ ''- <a href="http://www.smogon.com/forums/threads/3484106/">STABmons</a>'')
             else (matched, buffer));
          (matched, buffer) =
            (if target = ''all'' \<or> target = ''omotm'' \<or> target = ''omofthemonth'' \<or> target = ''month''
             then (True, buffer @ ''- <a href="http://www.smogon.com/forums/threads/3481155/">OM of the Month</a>'')
             else (matched, buffer));
          (matched, buffer) =
            (if target = ''all'' \<or> target = ''index''
             then (True, buffer @ ''- <a href="http://www.smogon.com/forums/threads/other-metagames-index.3472405/">OM Index</a><br />'')
             else (matched, buffer))
      in if \<not> matched
         then [SendReply (''The Other Metas entry "'' @ target @ ''" was not found. Try /othermetas or /om for general help.'')]
         else [SendReplyBox buffer]))\<close>

definition faq :: "ctx \<Rightarrow> event list" where
  \<comment> \<open>line 817\<close>
  \<open>faq c = guarded c (\<lambda>c.
     (let target = toLowerCase (target c);
          buffer = [];
          matched = False;
          (matched, buffer) =
            (if target = [] \<or> target = ''all''
             then (True, buffer @ ''<a href="http://www.smogon.com/sim/faq">Frequently Asked Questions</a><br />'')
             else (matched, buffer));
          (matched, buffer) =
            (if target = ''all'' \<or> target = ''deviation''
             then (True, buffer @ ''<a href="http://www.smogon.com/sim/faq#deviation">Why did this user gain or lose so many points?</a><br />'')
             else (matched, buffer));
          (matched, buffer) =
            (if target = ''all'' \<or> target = ''doubles'' \<or> target = ''triples'' \<or> target = ''rotation''
             then (True, buffer @ ''<a href="http://www.smogon.com/sim/faq#doubles">Can I play doubles/triples/rotation battles here?</a><br />'')
             else (matched, buffer));
          (matched, buffer) =
            (if target = ''all'' \<or> target = ''randomcap''
             then (True, buffer @ ''<a href="http://www.smogon.com/sim/faq#randomcap">What is this fakemon and what is it doing in my random battle?</a><br />'')
             else (matched, buffer));
          (matched, buffer) =
            (if target = ''all'' \<or> target = ''restarts''
             then (True, buffer @ ''<a href="http://www.smogon.com/sim/faq#restarts">Why is the server restarting?</a><br />'')
             else (matched, buffer));
          (matched, buffer) =
            (if target = ''all'' \<or> target = ''staff''
             then (True, buffer @ ''<a href="http://www.smogon.com/sim/staff_faq">Staff FAQ</a><br />'')
             else (matched, buffer));
          (matched, buffer) =
            (if target = ''all'' \<or> target = ''autoconfirmed'' \<or> target = ''ac''
             then (True, buffer @ ''A user is autoconfirmed when they have won at least one rated battle and has been registered for a week or longer.<br />'')
             else (matched, buffer))
      in if \<not> matched
         then [SendReply (''The FAQ entry "'' @ target @ ''" was not found. Try /faq for general help.'')]
         else [SendReplyBox buffer]))\<close>

definition tiers :: "ctx \<Rightarrow> event list" where
  \<comment> \<open>line 858\<close>
  \<open>tiers c = guarded c (\<lambda>c.
     (let target = toId c (target c);
          buffer = [];
          matched = False;
          (matched, buffer) =
            (if target = [] \<or> target = ''all''
             then (True, buffer @ ''- <a href="http://www.smogon.com/tiers/">Smogon Tiers</a><br />'' @ ''- <a href="http://www.smogon.com/forums/threads/tiering-faq.3498332/">Tiering FAQ</a><br />'' @ ''- <a href="http://www.smogon.com/bw/banlist/">The banlists for each tier</a><br />'')
             else (matched, buffer));
          (matched, buffer) =
            (if target = ''all'' \<or> target = ''ubers'' \<or> target = ''uber''
             then (True, buffer @ ''- <a href="http://www.smogon.com/bw/tiers/uber">Uber Pokemon</a><br />'')
             else (matched, buffer));
          (matched, buffer) =
            (if target = ''all'' \<or> target = ''overused'' \<or> target = ''ou''
             then (True, buffer @ ''- <a href="http://www.smogon.com/bw/tiers/ou">Overused Pokemon</a><br />'')
             else (matched, buffer));
          (matched, buffer) =
            (if target = ''all'' \<or> target = ''underused'' \<or> target = ''uu''
             then (True, buffer @ ''- <a href="http://www.smogon.com/bw/tiers/uu">Underused Pokemon</a><br />'')
             else (matched, buffer));
          (matched, buffer) =
            (if target = ''all'' \<or> target = ''rarelyused'' \<or> target = ''ru''
             then (True, buffer @ ''- <a href="http://www.smogon.com/bw/tiers/ru">Rarelyused Pokemon</a><br />'')
             else (matched, buffer));
          (matched, buffer) =
            (if target = ''all'' \<or> target = ''neverused'' \<or> target = ''nu''
             then (True, buffer @ ''- <a href="http://www.smogon.com/bw/tiers/nu">Neverused Pokemon</a><br />'')
             else (matched, buffer));
          (matched, buffer) =
            (if target = ''all'' \<or> target = ''littlecup'' \<or> target = ''lc''
             then (True, buffer @ ''- <a href="http://www.smogon.com/bw/tiers/lc">Little Cup Pokemon</a><br />'')
             else (matched, buffer));
          (matched, buffer) =
            (if target = ''all'' \<or> target = ''doubles''
             then (True, buffer @ ''- <a href="http://www.smogon.com/bw/metagames/doubles">Doubles</a><br />'')
             else (matched, buffer))
      in if \<not> matched
         then [SendReply (''The Tiers entry "'' @ target @ ''" was not found. Try /tiers for general help.'')]
         else [SendReplyBox buffer]))\<close>

definition crymeariver :: "ctx \<Rightarrow> event list" where
  \<comment> \<open>line 1007\<close>
  \<open>crymeariver c = guarded c (\<lambda>c.
     [SendReply
       (''|raw|<center><img width="300" height="169" src="http://i.imgur.com/zb2j4qq.gif?1"></center>'')])\<close>

definition queenofthecastle :: "ctx \<Rightarrow> event list" where
  \<comment> \<open>line 1012\<close>
  \<open>queenofthecastle c = guarded c (\<lambda>c.
     [SendReply
       (''|raw|<center><img width="300" height="169" src="http://fc00.deviantart.net/fs70/f/2013/297/1/7/rwby_nora_valkyrie_gif_by_dustiniz117-d6rmph4.gif"></center>'')])\<close>

definition crushhiswang :: "ctx \<Rightarrow> event list" where
  \<comment> \<open>line 1018\<close>
  \<open>crushhiswang c = guarded c (\<lambda>c.
     [SendReply
       (''|raw|<center><img width="300" height="169" src="http://24.media.tumblr.com/67235f6be8c274a7ce05cb13e8c01c26/tumblr_mnr325ZLN41r0z4fuo2_500.gif"></center>'')])\<close>

definition firepunch :: "ctx \<Rightarrow> event list" where
  \<comment> \<open>line 1023\<close>
  \<open>firepunch c = guarded c (\<lambda>c.
     [SendReply
       (''|raw|<center><img width="300" height="169" src="http://31.media.tumblr.com/d216a9b45ac33766ac621dd36dce891f/tumblr_mnqp5nUxSj1rj8nzio1_400.gif"></center>'')])\<close>

definition lieren :: "ctx \<Rightarrow> event list" where
  \<comment> \<open>line 1028\<close>
  \<open>lieren c = guarded c (\<lambda>c.
     [SendReply
       (''|raw|<center><img width="300" height="169" src="http://24.media.tumblr.com/50061b7f7abd7013806e56090c4bb03e/tumblr_mryhff94TG1sbu5xto6_400.gif"></center>'')])\<close>

definition iceblast :: "ctx \<Rightarrow> event list" where
  \<comment> \<open>line 1033\<close>
  \<open>iceblast c = guarded c (\<lambda>c.
     [SendReply
       (''|raw|<center><img width="300" height="169" src="http://images1.wikia.nocookie.net/rwby/images/5/59/Tumblr_mik0scCZe41rktwn6o1_500.gif"></center>'')])\<close>

definition combatskirts :: "ctx \<Rightarrow> event list" where
  \<comment> \<open>line 1038\<close>
  \<open>combatskirts c = guarded c (\<lambda>c.
     [SendReply
       (''|raw|<center><img width="300" height="169" src="http://25.media.tumblr.com/b74eb164763dce0487564c3ce21b9318/tumblr_mvk84l1WWN1rq5fzso1_500.gif"></center>'')])\<close>

definition dexholders :: "ctx \<Rightarrow> event list" where
  \<comment> \<open>line 1043\<close>
  \<open>dexholders c = guarded c (\<lambda>c.
     [SendReply
       (''|raw|<center><img width="300" height="169" src="http://i.imgur.com/tR9r9.gif"></center>'')])\<close>

definition nora :: "ctx \<Rightarrow> event list" where
  \<comment> \<open>line 1048\<close>
  \<open>nora c = guarded c (\<lambda>c.
     [SendReply
       (''|raw|<center><img width="300" height="169" src="http://25.media.tumblr.com/92f2a57740bc0ad121e0cb87d9836b87/tumblr_msonfrBlq11sgww3vo1_500.gif"></center>'')])\<close>

definition rockshurt :: "ctx \<Rightarrow> event list" where
  \<comment> \<open>line 1053\<close>
  \<open>rockshurt c = guarded c (\<lambda>c.
     [SendReply
       (''|raw|<center><img width="300" height="169" src="http://31.media.tumblr.com/b86cf32cad9df3e1c31e67c678a443a5/tumblr_muli1oVcqm1qzkj9ko3_500.gif"></center>'')])\<close>

definition owch :: "ctx \<Rightarrow> event list" where
  \<comment> \<open>line 1058\<close>
  \<open>owch c = guarded c (\<lambda>c.
     [SendReply
       (''|raw|<center><img width="300" height="169" src="http://25.media.tumblr.com/c2a1162d3986dffa65e437641284edc6/tumblr_muli1oVcqm1qzkj9ko1_500.gif"></center>'')])\<close>

definition treessuck :: "ctx \<Rightarrow> event list" where
  \<comment> \<open>line 1063\<close>
  \<open>treessuck c = guarded c (\<lambda>c.
     [SendReply
       (''|raw|<center><img width="300" height="169" src="http://media.tumblr.com/32710e9bfca046da6e4514c6fcc82b23/tumblr_inline_ms1l71n1ii1qz4rgp.gif"></center>'')])\<close>

definition throw :: "ctx \<Rightarrow> event list" where
  \<comment> \<open>line 1068\<close>
  \<open>throw c = guarded c (\<lambda>c.
     [SendReply
       (''|raw|<center><img width="300" height="169" src="http://31.media.tumblr.com/0b63717080612b951cd76bb8fbe222f5/tumblr_muli1oVcqm1qzkj9ko4_500.gif"></center>'')])\<close>

definition spoilerwarning :: "ctx \<Rightarrow> event list" where
  \<comment> \<open>line 1073\<close>
  \<open>spoilerwarning c = guarded c (\<lambda>c.
     [SendReply
       (''|raw|<center><img width="300" height="169" src="http://static3.wikia.nocookie.net/__cb20131031233004/rwby/images/b/b0/The_Stray_00033.png"></center>'')])\<close>

definition iburn :: "ctx \<Rightarrow> event list" where
  \<comment> \<open>line 1078\<close>
  \<open>iburn c = guarded c (\<lambda>c.
     [SendReply
       (''|raw|<center><img width="300" height="169" src="http://i.minus.com/idK6YE40trRue.gif"></center>'')])\<close>

definition comeatme :: "ctx \<Rightarrow> event list" where
  \<comment> \<open>line 1083\<close>
  \<open>comeatme c = guarded c (\<lambda>c.
     [SendReply
       (''|raw|<center><img width="300" height="169" src="http://31.media.tumblr.com/tumblr_lrzvrmMDMl1r1l46do1_500.gif"></center>'')])\<close>

definition wukong :: "ctx \<Rightarrow> event list" where
  \<comment> \<open>line 1088\<close>
  \<open>wukong c = guarded c (\<lambda>c.
     [SendReply
       (''|raw|<center><img width="300" height="169" src="http://i145.photobucket.com/albums/r239/FM_Nocturna/bth_rwby-sun_zps1b425c62.gif"></center>'')])\<close>

definition adam :: "ctx \<Rightarrow> event list" where
  \<comment> \<open>line 1093\<close>
  \<open>adam c = guarded c (\<lambda>c.
     [SendReply
       (''|raw|<center><img width="300" height="169" src="http://i.minus.com/iUTbYOS2OZ56y.gif"></center>'')])\<close>

definition ama :: "ctx \<Rightarrow> event list" where
  \<comment> \<open>line 1098\<close>
  \<open>ama c = guarded c (\<lambda>c.
     [SendReply
       (''|raw|<center><img width="300" height="169" src="http://images4.fanpop.com/image/photos/16900000/Okami-Animated-Gif-s-okami-amaterasu-16966304-320-225.gif"></center>'')])\<close>

definition kissandmakeup :: "ctx \<Rightarrow> event list" where
  \<comment> \<open>line 1103\<close>
  \<open>kissandmakeup c = guarded c (\<lambda>c.
     [SendReply
       (''|raw|<center><img width="300" height="169" src="http://static.tumblr.com/163f6e361ace5ed3ab961a6700abbd15/auelhnj/nf4mrcg1x/tumblr_static_kiss.gif"></center>'')])\<close>

definition demon :: "ctx \<Rightarrow> event list" where
  \<comment> \<open>line 1108\<close>
  \<open>demon c = guarded c (\<lambda>c.
     [SendReply
       (''|raw|<center><img width="300" height="169" src="http://img837.imageshack.us/img837/3570/blaze.gif"></center>'')])\<close>

definition lyn :: "ctx \<Rightarrow> event list" where
  \<comment> \<open>line 1113\<close>
  \<open>lyn c = guarded c (\<lambda>c.
     [SendReply
       (''|raw|<center><img width="300" height="169" src="http://lparchive.org/Fire-Emblem-Blazing-Sword/Update%2041/72-solkatti.gif"></center>'')])\<close>

definition lucina :: "ctx \<Rightarrow> event list" where
  \<comment> \<open>line 1118\<close>
  \<open>lucina c = guarded c (\<lambda>c.
     [SendReply
       (''|raw|<center><img width="300" height="169" src="http://24.media.tumblr.com/e96224e07e1d1c28a9c6d2f1846e2153/tumblr_mqtaxjird31r1fq7do2_400.gif"></center>'')])\<close>

definition yay :: "ctx \<Rightarrow> event list" where
  \<comment> \<open>line 1127\<close>
  \<open>yay c = guarded c (\<lambda>c.
     [SendReply
       (''|raw|<center><img width="300" height="169" src="http://stream1.gifsoup.com/view8/4716472/pokespe-boys-o.gif"></center>'')])\<close>

definition register :: "ctx \<Rightarrow> event list" where
  \<comment> \<open>line 1172\<close>
  \<open>register c = guarded c (\<lambda>c.
     [SendReply
       (''You must win a rated battle to register.'')])\<close>

definition ruby :: "ctx \<Rightarrow> event list" where
  \<comment> \<open>line 1526\<close>
  \<open>ruby c = guarded c (\<lambda>c.
     [SendReplyBox
       (''Elite Four:<center><img src="http://i.imgur.com/b8BkoNg.jpg"></center><br >'' @
        ''Title:<center> The Gentle Blaze</center><br >'' @
        ''Ace:<center> Charizard</center><br >'' @
        ''Quote:<center> Now sit back and watch me burn!</center><br >'' @
        ''<center><img src="http://fc07.deviantart.net/fs71/f/2013/277/a/b/mega_charizard_y_sprite_by_flamejow-d6m3y7l.png"></center>'')])\<close>

definition lily :: "ctx \<Rightarrow> event list" where
  \<comment> \<open>line 1536\<close>
  \<open>lily c = guarded c (\<lambda>c.
     [SendReplyBox
       (''Elite Four: Lily Rainbow<br >'' @
        ''Ace: Nidoqueen<br >'' @
        ''Quote: You better find a cure or I will take over! .<br >'' @
        ''<img src="http://media.pldh.net/pokemon/gen5/blackwhite_animated_front/031.gif">'')])\<close>

definition xathoz :: "ctx \<Rightarrow> event list" where
  \<comment> \<open>line 1545\<close>
  \<open>xathoz c = guarded c (\<lambda>c.
     [SendReplyBox
       (''Frontier: Xathoz<br >'' @
        ''Ace: Gliscor<br >'' @
        ''Quote: "Pride is not the opposite of shame, but its source. The only antidote to shame is true humility." -Iroh .<br >'' @
        ''<img src="http://static2.wikia.nocookie.net/__cb20110817211941/pokemon/images/7/7f/Gliscor.gif">'')])\<close>

definition red :: "ctx \<Rightarrow> event list" where
  \<comment> \<open>line 1554\<close>
  \<open>red c = guarded c (\<lambda>c.
     [SendReplyBox
       (''Palace Mavin: Red<br >'' @
        ''Ace: Darmanitan and Duskinoir<br >'' @
        ''Quote: Either I just rek you or we screw eachother passionatly and yaoi style .<br >'' @
        ''<img src="http://img.pokemondb.net/sprites/black-white/anim/normal/darmanitan-standard-mode.gif">'')])\<close>

definition blair :: "ctx \<Rightarrow> event list" where
  \<comment> \<open>line 1563\<close>
  \<open>blair c = guarded c (\<lambda>c.
     [SendReplyBox
       (''Gym Leader: Blair<br >'' @
        ''Ace: Togekiss<br >'' @
        ''Quote: Let me just Blair some music .<br >'' @
        ''<img src="http://img.pokemondb.net/sprites/black-white/anim/normal/togekiss.gif">'')])\<close>

definition atom :: "ctx \<Rightarrow> event list" where
  \<comment> \<open>line 1572\<close>
  \<open>atom c = guarded c (\<lambda>c.
     [SendReplyBox
       (''Elite Four: Atomsk<br >'' @
        ''Ace: Greninja<br >'' @
        ''Quote: Its no fun unless your fighting a losing battle .<br >'' @
        ''<img src="http://img.pokemondb.net/sprites/x-y/pixel/greninja.png">'')])\<close>

definition fluffy :: "ctx \<Rightarrow> event list" where
  \<comment> \<open>line 1581\<close>
  \<open>fluffy c = guarded c (\<lambda>c.
     [SendReplyBox
       (''Dome Ace: Fluffy<br >'' @
        ''Ace: Aegislash<br >'' @
        ''Quote: Learning comes from losing .<br >'' @
        ''<img src="http://img.pokemondb.net/sprites/x-y/normal/aegislash-blade.png">'')])\<close>

definition lynn :: "ctx \<Rightarrow> event list" where
  \<comment> \<open>line 1591\<close>
  \<open>lynn c = guarded c (\<lambda>c.
     [SendReplyBox
       (''Champion Lyn Keikai Hikaru<br >'' @
        ''Title: The Eternally Cool yet Elegant<br >'' @
        ''Ace: Gardevoir and Gallade<br >'' @
        ''Quote: Mind, Skill, Tranquility .<br >'' @
        ''<img src="http://img.pokemondb.net/sprites/black-white/anim/normal/gardevoir.gif"><img src="http://img.pokemondb.net/sprites/black-white/anim/normal/gallade.gif">'')])\<close>

definition cosy :: "ctx \<Rightarrow> event list" where
  \<comment> \<open>line 1600\<close>
  \<open>cosy c = guarded c (\<lambda>c.
     [SendReply
       (''|raw|<center><img src="http://i.imgur.com/yMNJ2xK.png"></center>'')])\<close>

definition missing1 :: "ctx \<Rightarrow> event list" where
  \<comment> \<open>line 1606\<close>
  \<open>missing1 c = guarded c (\<lambda>c.
     [SendReplyBox
       (''Gym Leader: Missing1<br >'' @
        ''Ace: Arcanine<br >'' @
        ''Quote: None as of yet.<br >'' @
        ''<img src="http://img.pokemondb.net/sprites/black-white/anim/normal/arcanine.gif">'')])\<close>

definition aaron :: "ctx \<Rightarrow> event list" where
  \<comment> \<open>line 1615\<close>
  \<open>aaron c = guarded c (\<lambda>c.
     [SendReplyBox
       (''Gym Leader: Aaron<br >'' @
        ''Ace: Mega Aggron<br >'' @
        ''Quote: Rock Solid Through The Core.<br >'' @
        ''<img src="http://i305.photobucket.com/albums/nn232/XandZero2/MEGAGGRON_zpsa46c3722.png">'')])\<close>

definition raven :: "ctx \<Rightarrow> event list" where
  \<comment> \<open>line 1624\<close>
  \<open>raven c = guarded c (\<lambda>c.
     [SendReplyBox
       (''Gym Leader: Raven<br >'' @
        ''Ace: Toxicroak <br >'' @
        ''Quote: Its never truly over until one loses.<br >'' @
        ''<img src="http://img.pokemondb.net/sprites/black-white/anim/normal/toxicroak.gif">'')])\<close>

definition kolotos :: "ctx \<Rightarrow> event list" where
  \<comment> \<open>line 1633\<close>
  \<open>kolotos c = guarded c (\<lambda>c.
     [SendReplyBox
       (''Elite Four: Kolotos<br >'' @
        ''Ace: Electivire<br >'' @
        ''Quote: Feel the thunder! .<br >'' @
        ''<img src="http://img.pokemondb.net/sprites/black-white/anim/normal/electivire.gif">'')])\<close>

subsection \<open>The list of these handlers\<close>

definition broadcast_handlers :: "(string \<times> (ctx \<Rightarrow> event list)) list" where
  \<open>broadcast_handlers = [
     (''data'', data), (''dexsearch'', dexsearch), (''learn'', learn),
     (''effectiveness'', effectiveness), (''uptime'', uptime), (''groups'', groups),
     (''website'', website), (''forum'', forum), (''opensource'', opensource),
     (''avatars'', avatars), (''intro'', intro), (''smogintro'', smogintro),
     (''calc'', calc), (''cap'', cap), (''gennext'', gennext),
     (''othermetas'', othermetas), (''roomhelp'', roomhelp),
     (''restarthelp'', restarthelp), (''rules'', rules), (''faq'', faq),
     (''tiers'', tiers), (''smogdex'', smogdex), (''crymeariver'', crymeariver),
     (''queenofthecastle'', queenofthecastle), (''crushhiswang'', crushhiswang),
     (''firepunch'', firepunch), (''lieren'', lieren), (''iceblast'', iceblast),
     (''combatskirts'', combatskirts), (''dexholders'', dexholders), (''nora'', nora),
     (''rockshurt'', rockshurt), (''owch'', owch), (''treessuck'', treessuck),
     (''throw'', throw), (''spoilerwarning'', spoilerwarning), (''iburn'', iburn),
     (''comeatme'', comeatme), (''wukong'', wukong), (''adam'', adam), (''ama'', ama),
     (''kissandmakeup'', kissandmakeup), (''demon'', demon), (''lyn'', lyn),
     (''lucina'', lucina), (''yay'', yay), (''dice'', dice), (''register'', register),
     (''ruby'', ruby), (''lily'', lily), (''xathoz'', xathoz), (''red'', red),
     (''blair'', blair), (''atom'', atom), (''fluffy'', fluffy), (''lynn'', lynn),
     (''cosy'', cosy), (''missing1'', missing1), (''aaron'', aaron),
     (''raven'', raven), (''kolotos'', kolotos)]\<close>

section \<open>The other handlers behind a permission check\<close>

definition potd :: "ctx \<Rightarrow> event list" where
  \<comment> \<open>line 1132\<close>
  \<open>potd c =
     (if \<not> can c ''potd'' then [PermissionCheck ''potd'' False]
      else PermissionCheck ''potd'' True #
        [SetPotd (target c),
         SimulatorEval (''config.potd = '' @ [CHR 0x27] @ toId c (target c) @ [CHR 0x27])]
        @ (if target c \<noteq> []
           then (if Rooms_lobby c
                 then [LobbyAddRaw (''<div class="broadcast-blue"><b>The Pokemon of the Day is now ''
                         @ target c
                         @ ''!</b><br />This Pokemon will be guaranteed to show up in random battles.</div>'')]
                 else [])
                @ [LogModCommand (''The Pokemon of the Day was changed to '' @ target c
                     @ '' by '' @ user_name c @ ''.'')]
           else (if Rooms_lobby c
                 then [LobbyAddRaw (''<div class="broadcast-blue"><b>The Pokemon of the Day was removed!</b>''
                         @ ''<br />No pokemon will be guaranteed in random battles.</div>'')]
                 else [])
                @ [LogModCommand (''The Pokemon of the Day was removed by '' @ user_name c @ ''.'')]))\<close>

definition a_cmd :: "ctx \<Rightarrow> event list" where
  \<comment> \<open>line 1195, the handler \<open>a\<close>\<close>
  "a_cmd c =
     (if \<not> can c ''battlemessage'' then [PermissionCheck ''battlemessage'' False]
      else [PermissionCheck ''battlemessage'' True, RoomAdd (target c)])"

section \<open>The shared state the handlers write\<close>

record world =
  rulesLink :: "string option"
  chatRoomData_rulesLink :: "string option"
  config_potd :: string

fun apply_event :: "event \<Rightarrow> world \<Rightarrow> world" where
  "apply_event (SetRulesLink l) w = w\<lparr>rulesLink := Some l\<rparr>"
| "apply_event (SetChatRoomRulesLink l) w = w\<lparr>chatRoomData_rulesLink := Some l\<rparr>"
| "apply_event (SetPotd p) w = w\<lparr>config_potd := p\<rparr>"
| "apply_event e w = w"

definition apply_events :: "event list \<Rightarrow> world \<Rightarrow> world" where
  \<comment> \<open>the shared state after a handler has run\<close>
  "apply_events es w = fold apply_event es w"

definition is_output :: "event \<Rightarrow> bool" where
  \<comment> \<open>a reply, a re-entrant command or a message handed to a room or to the logs\<close>
  "is_output e =
     (case e of SendReply s \<Rightarrow> True | SendReplyUnits w \<Rightarrow> True | SendReplyBox s \<Rightarrow> True
      | Parse s \<Rightarrow> True
      | LobbyAddRaw s \<Rightarrow> True | LogModCommand s \<Rightarrow> True | RoomAdd s \<Rightarrow> True
      | _ \<Rightarrow> False)"

definition after_failed_check :: "event list \<Rightarrow> event list" where
  \<comment> \<open>what a handler does after \<open>this.canBroadcast()\<close> has answered false\<close>
  "after_failed_check es = drop 1 (dropWhile (\<lambda>e. e \<noteq> BroadcastCheck False) es)"

section \<open>The command table\<close>

text \<open>
  \<open>commands_literal\<close> is the object literal \<open>exports.commands\<close> as written: each key
  with its value, an alias (a string) or a handler (a function, named here by the source
  line where it starts). A key written twice keeps its first place and its last
  value, so the object is \<open>commands\<close>.
\<close>

datatype command = Alias string | Handler nat

definition commands_literal :: "(string \<times> command) list" where
  \<open>commands_literal = [
     (''ip'', Alias ''whois''), (''getip'', Alias ''whois''),
     (''rooms'', Alias ''whois''), (''altcheck'', Alias ''whois''),
     (''alt'', Alias ''whois''), (''alts'', Alias ''whois''),
     (''getalts'', Alias ''whois''), (''whois'', Handler 155),
     (''ipsearch'', Handler 210), (''invite'', Handler 228),
     (''stats'', Alias ''data''), (''dex'', Alias ''data''),
     (''pokedex'', Alias ''data''), (''data'', Handler 247),
     (''dsearch'', Alias ''dexsearch''), (''dexsearch'', Handler 268),
     (''learnset'', Alias ''learn''), (''learnall'', Alias ''learn''),
     (''learn5'', Alias ''learn''), (''g6learn'', Alias ''learn''),
     (''learn'', Handler 458), (''weak'', Alias ''weakness''),
     (''weakness'', Handler 519), (''eff'', Alias ''effectiveness''),
     (''type'', Alias ''effectiveness''), (''matchup'', Alias ''effectiveness''),
     (''effectiveness'', Handler 558), (''uptime'', Handler 611),
     (''groups'', Handler 626), (''website'', Handler 636), (''forum'', Handler 641),
     (''opensource'', Handler 648), (''avatars'', Handler 653),
     (''introduction'', Alias ''intro''), (''intro'', Handler 659),
     (''mentoring'', Alias ''smogintro''), (''smogonintro'', Alias ''smogintro''),
     (''smogintro'', Handler 670), (''calculator'', Alias ''calc''),
     (''calc'', Handler 683), (''cap'', Handler 689), (''gennext'', Handler 698),
     (''om'', Alias ''othermetas''), (''othermetas'', Handler 708),
     (''roomhelp'', Handler 755), (''restarthelp'', Handler 782),
     (''rule'', Alias ''rules''), (''rules'', Handler 794), (''faq'', Handler 817),
     (''banlists'', Alias ''tiers''), (''tier'', Alias ''tiers''),
     (''tiers'', Handler 858), (''analysis'', Alias ''smogdex''),
     (''strategy'', Alias ''smogdex''), (''smogdex'', Handler 905),
     (''crymeariver'', Handler 1007), (''queenofthecastle'', Handler 1012),
     (''crushhiswang'', Handler 1018), (''firepunch'', Handler 1023),
     (''lieren'', Handler 1028), (''iceblast'', Handler 1033),
     (''combatskirts'', Handler 1038), (''dexholders'', Handler 1043),
     (''nora'', Handler 1048), (''rockshurt'', Handler 1053), (''owch'', Handler 1058),
     (''treessuck'', Handler 1063), (''throw'', Handler 1068),
     (''spoilerwarning'', Handler 1073), (''iburn'', Handler 1078),
     (''comeatme'', Handler 1083), (''wukong'', Handler 1088),
     (''adam'', Handler 1093), (''ama'', Handler 1098),
     (''kissandmakeup'', Handler 1103), (''demon'', Handler 1108),
     (''lyn'', Handler 1113), (''lucina'', Handler 1118), (''birkal'', Handler 1123),
     (''yay'', Handler 1127), (''potd'', Handler 1132), (''roll'', Alias ''dice''),
     (''dice'', Handler 1147), (''register'', Handler 1172),
     (''br'', Alias ''banredirect''), (''banredirect'', Handler 1178),
     (''lobbychat'', Handler 1182), (''a'', Handler 1195),
     (''commands'', Alias ''help''), (''h'', Alias ''help''), (''?'', Alias ''help''),
     (''help'', Handler 1208), (''ruby'', Alias ''Kari Ruby''),
     (''ruby'', Handler 1526), (''lily'', Alias ''Lily''), (''lily'', Handler 1536),
     (''xathoz'', Alias ''xathoz''), (''xathoz'', Handler 1545),
     (''red'', Alias ''red''), (''red'', Handler 1554), (''blair'', Alias ''Blair''),
     (''blair'', Handler 1563), (''atom'', Alias ''Atomsk''), (''atom'', Handler 1572),
     (''fluffy'', Alias ''Fluffy''), (''fluffy'', Handler 1581),
     (''lynn'', Alias ''Lynn''), (''lyzz'', Alias ''Lynn''), (''lynn'', Handler 1591),
     (''cosy'', Handler 1600), (''missing1'', Alias ''missing1''),
     (''missing1'', Handler 1606), (''aaron'', Alias ''Aaron''),
     (''aaron'', Handler 1615), (''raven'', Alias ''Raven''),
     (''raven'', Handler 1624), (''kolotos'', Alias ''kolotos''),
     (''kolotos'', Handler 1633)]\<close>

definition commands :: "command obj" where
  "commands = foldl (\<lambda>m (k, v). obj_put m k v) [] commands_literal"

section \<open>whois and ipsearch\<close>

record user =
  u_ref :: nat
  u_name :: string
  u_group :: string
  prevNames :: "string list"
  u_alts :: "string list"
  named :: bool
  connected :: bool
  isSysop :: bool
  authenticated :: bool
  ips :: "string list"
  latestIp :: string
  roomCount :: "string list"

text \<open>
  \<open>u_ref\<close> is the identity of the user object (\<open>user === targetUser\<close> compares it);
  \<open>prevNames\<close> lists the values of \<open>prevNames\<close>, \<open>u_alts\<close> is \<open>getAlts()\<close>, and
  \<open>ips\<close> and \<open>roomCount\<close> list the keys of the objects of these names.
\<close>

record whois_env =
  w_user :: user
  w_targetUser :: "user option"
  w_targetUsername :: string
  user_can :: "string \<Rightarrow> user \<Rightarrow> bool"
  Users_get :: "string \<Rightarrow> user"
  group_name :: "string \<Rightarrow> string option"
  isPrivate :: "string \<Rightarrow> bool"

text \<open>
  \<open>w_targetUser\<close> is what \<open>this.targetUserOrSelf(target)\<close> returns and
  \<open>w_targetUsername\<close> is \<open>this.targetUsername\<close> afterwards; \<open>user_can p u\<close> is
  \<open>user.can(p, u)\<close>, the check without the denial message; \<open>group_name g\<close> is
  \<open>config.groups[g].name\<close> when the group has a name; \<open>isPrivate r\<close> is
  \<open>Rooms.get(r).isPrivate\<close>.
\<close>

fun names_output :: "string \<Rightarrow> string list \<Rightarrow> string" where
  \<comment> \<open>\<open>for (var i in prevNames) { if (output) output += ", "; output += prevNames[i]; }\<close>\<close>
  "names_output out [] = out"
| "names_output out (n # ns) = names_output ((if out \<noteq> [] then out @ '', '' else out) @ n) ns"

definition previous_names :: "user \<Rightarrow> event list" where
  \<comment> \<open>\<open>if (output) this.sendReply('Previous names: '+output)\<close>\<close>
  "previous_names u =
     (let out = names_output [] (prevNames u)
      in if out \<noteq> [] then [SendReply (''Previous names: '' @ out)] else [])"

definition alt_replies :: "whois_env \<Rightarrow> string \<Rightarrow> event list" where
  \<comment> \<open>one round of the loop over \<open>alts\<close>\<close>
  "alt_replies e a =
     (let targetAlt = Users_get e a in
      if \<not> named targetAlt \<and> \<not> connected targetAlt then []
      else if u_group targetAlt = ''~'' \<and> u_group (w_user e) \<noteq> ''~'' then []
      else SendReply (''Alt: '' @ u_name targetAlt) # previous_names targetAlt)"

fun rooms_output :: "whois_env \<Rightarrow> string \<Rightarrow> bool \<Rightarrow> string list \<Rightarrow> string" where
  \<comment> \<open>\<open>for (var i in targetUser.roomCount)\<close>, from \<open>output\<close> and \<open>first\<close>\<close>
  \<open>rooms_output e out first [] = out\<close>
| \<open>rooms_output e out first (i # is) =
     (if i = ''global'' \<or> isPrivate e i then rooms_output e out first is
      else rooms_output e
             ((if \<not> first then out @ '' | '' else out)
              @ ''<a href="/'' @ i @ ''" room="'' @ i @ ''">'' @ i @ ''</a>'')
             False is)\<close>

definition whois :: "ctx \<Rightarrow> whois_env \<Rightarrow> event list" where
  \<comment> \<open>line 155\<close>
  \<open>whois c e =
     (case w_targetUser e of
        None \<Rightarrow> [SendReply (''User '' @ w_targetUsername e @ '' not found.'')]
      | Some targetUser \<Rightarrow>
          [SendReply (''User: '' @ u_name targetUser)]
          @ (if user_can e ''alts'' targetUser
             then previous_names targetUser @ concat (map (alt_replies e) (u_alts targetUser))
             else [])
          @ (case group_name e (u_group targetUser) of
               None \<Rightarrow> []
             | Some n \<Rightarrow>
                 if n \<noteq> [] then [SendReply (''Group: '' @ n @ '' ('' @ u_group targetUser @ '')'')]
                 else [])
          @ (if isSysop targetUser
             then [SendReply (''(Pok'' @ [CHR 0xE9] @ ''mon Showdown System Operator)'')] else [])
          @ (if \<not> authenticated targetUser then [SendReply ''(Unregistered)''] else [])
          @ (if \<not> broadcasting c
                \<and> (user_can e ''ip'' targetUser \<or> u_ref (w_user e) = u_ref targetUser)
             then [SendReply (''IP'' @ (if length (ips targetUser) > 1 then ''s'' else [])
                     @ '': '' @ join '', '' (ips targetUser))]
             else [])
          @ [SendReply (''|raw|'' @ rooms_output e ''In rooms: '' True (roomCount targetUser))])\<close>

definition is_ip_line :: "event \<Rightarrow> bool" where
  \<comment> \<open>a reply that starts with "IP"\<close>
  "is_ip_line e = (case e of SendReply s \<Rightarrow> take 2 s = ''IP'' | _ \<Rightarrow> False)"

definition ipsearch :: "ctx \<Rightarrow> user list \<Rightarrow> event list" where
  \<comment> \<open>line 210; the second argument lists the values of \<open>Users.users\<close>\<close>
  "ipsearch c users =
     (if \<not> can c ''rangeban'' then [PermissionCheck ''rangeban'' False]
      else PermissionCheck ''rangeban'' True #
        SendReply (''Users with IP '' @ target c @ '':'') #
        map (\<lambda>u. SendReply ((if connected u then ''+'' else ''-'') @ '' '' @ u_name u))
          (filter (\<lambda>u. latestIp u = target c) users)
        @ (if filter (\<lambda>u. latestIp u = target c) users = []
           then [SendReply ''No results found.''] else []))"

section \<open>Concrete catalogs\<close>

text \<open>
  Small catalogs on which the handlers are run below. \<open>ex_toId\<close> is the usual
  identifier form: lower case, letters and digits only.
\<close>

definition ex_toId :: "string \<Rightarrow> string" where
  "ex_toId s =
     filter (\<lambda>c. (CHR ''a'' \<le> c \<and> c \<le> CHR ''z'') \<or> (CHR ''0'' \<le> c \<and> c \<le> CHR ''9''))
       (toLowerCase s)"

definition no_effect :: "string \<Rightarrow> effect" where
  "no_effect s = \<lparr>e_exists = False, e_name = s, e_id = ex_toId s\<rparr>"

definition no_template :: "string \<Rightarrow> template" where
  "no_template s = \<lparr>t_exists = False, t_id = ex_toId s, species = s, baseSpecies = s,
     types = [], tier = ''Illegal'', gen = 0, color = [], isMega = False, evos = [],
     prevo = None, abilities = [], learnset = None\<rparr>"

definition jynx :: template where
  "jynx = \<lparr>t_exists = True, t_id = ''jynx'', species = ''Jynx'', baseSpecies = ''Jynx'',
     types = [''Ice'', ''Psychic''], tier = ''NU'', gen = 1, color = ''Red'', isMega = False,
     evos = [], prevo = Some ''smoochum'',
     abilities = [''Oblivious'', ''Forewarn'', ''Dry Skin''],
     learnset = Some [''lovelykiss'', ''pound'', ''powdersnow'', ''icepunch'']\<rparr>"

definition smoochum :: template where
  "smoochum = \<lparr>t_exists = True, t_id = ''smoochum'', species = ''Smoochum'',
     baseSpecies = ''Smoochum'', types = [''Ice'', ''Psychic''], tier = ''LC'', gen = 2,
     color = ''Pink'', isMega = False, evos = [''jynx''], prevo = None,
     abilities = [''Oblivious'', ''Forewarn'', ''Hydration''],
     learnset = Some [''pound'', ''powdersnow'', ''sweetkiss'', ''icepunch'']\<rparr>"

definition ferroseed :: template where
  "ferroseed = \<lparr>t_exists = True, t_id = ''ferroseed'', species = ''Ferroseed'',
     baseSpecies = ''Ferroseed'', types = [''Grass'', ''Steel''], tier = ''NU'', gen = 5,
     color = ''Gray'', isMega = False, evos = [''ferrothorn''], prevo = None,
     abilities = [''Iron Barbs''],
     learnset = Some [''tackle'', ''harden'', ''stealthrock'']\<rparr>"

definition ferrothorn :: template where
  "ferrothorn = \<lparr>t_exists = True, t_id = ''ferrothorn'', species = ''Ferrothorn'',
     baseSpecies = ''Ferrothorn'', types = [''Grass'', ''Steel''], tier = ''OU'', gen = 5,
     color = ''Gray'', isMega = False, evos = [], prevo = Some ''ferroseed'',
     abilities = [''Iron Barbs'', ''Anticipation''],
     learnset = Some [''tackle'', ''harden'', ''stealthrock'', ''powerwhip'']\<rparr>"

definition charizard :: template where
  "charizard = \<lparr>t_exists = True, t_id = ''charizard'', species = ''Charizard'',
     baseSpecies = ''Charizard'', types = [''Fire'', ''Flying''], tier = ''OU'', gen = 1,
     color = ''Red'', isMega = False, evos = [], prevo = Some ''charmeleon'',
     abilities = [''Blaze'', ''Solar Power''],
     learnset = Some [''flamethrower'', ''fly'']\<rparr>"

definition volcanion :: template where
  "volcanion = \<lparr>t_exists = True, t_id = ''volcanion'', species = ''Volcanion'',
     baseSpecies = ''Volcanion'', types = [''Fire'', ''Water''], tier = ''OU'', gen = 6,
     color = ''Brown'', isMega = False, evos = [], prevo = None,
     abilities = [''Water Absorb''],
     learnset = Some [''flamethrower'', ''steameruption'']\<rparr>"

definition ex_moves :: "(string \<times> string) list" where
  \<comment> \<open>identifier and name of the moves of the example catalog\<close>
  "ex_moves = [(''lovelykiss'', ''Lovely Kiss''), (''pound'', ''Pound''),
     (''powdersnow'', ''Powder Snow''), (''sweetkiss'', ''Sweet Kiss''),
     (''icepunch'', ''Ice Punch''), (''tackle'', ''Tackle''), (''harden'', ''Harden''),
     (''stealthrock'', ''Stealth Rock''), (''powerwhip'', ''Power Whip''),
     (''flamethrower'', ''Flamethrower''), (''fly'', ''Fly''),
     (''steameruption'', ''Steam Eruption'')]"

definition ex_abilities :: "(string \<times> string) list" where
  "ex_abilities = [(''oblivious'', ''Oblivious''), (''forewarn'', ''Forewarn''),
     (''dryskin'', ''Dry Skin''), (''hydration'', ''Hydration''),
     (''ironbarbs'', ''Iron Barbs''), (''anticipation'', ''Anticipation''),
     (''blaze'', ''Blaze''), (''solarpower'', ''Solar Power''),
     (''waterabsorb'', ''Water Absorb'')]"

definition ex_effect :: "(string \<times> string) list \<Rightarrow> string \<Rightarrow> effect" where
  "ex_effect table s =
     (case map_of table (ex_toId s) of
        None \<Rightarrow> no_effect s
      | Some n \<Rightarrow> \<lparr>e_exists = True, e_name = n, e_id = ex_toId s\<rparr>)"

definition ex_templates :: "(string \<times> template) list" where
  "ex_templates = [(''jynx'', jynx), (''smoochum'', smoochum), (''ferroseed'', ferroseed),
     (''ferrothorn'', ferrothorn), (''charizard'', charizard), (''volcanion'', volcanion)]"

definition ex_getTemplate :: "string \<Rightarrow> template" where
  "ex_getTemplate s =
     (case map_of ex_templates (ex_toId s) of None \<Rightarrow> no_template s | Some t \<Rightarrow> t)"

definition ex_types :: "string list" where
  "ex_types = [''Fire'', ''Flying'', ''Grass'', ''Ice'', ''Psychic'', ''Steel'', ''Water'']"

definition ex_tools :: "string list \<Rightarrow> tools" where
  \<comment> \<open>the data provider over the example entries, with the given Pokedex keys\<close>
  "ex_tools ids = \<lparr>getAbility = ex_effect ex_abilities,
     getMove = (\<lambda>w. ex_effect ex_moves (of_code_units (filter (\<lambda>n. n < 256) w))),
     getType = (\<lambda>s. no_effect s), getTemplate = ex_getTemplate, Pokedex = ids,
     TypeChart = ex_types, lc_banlist = [''Scyther'', ''Sneasel'']\<rparr>"

definition ex_ctx :: "string list \<Rightarrow> string \<Rightarrow> ctx" where
  \<comment> \<open>a private invocation (typed with "/") with the given target\<close>
  "ex_ctx ids tgt = \<lparr>target = tgt, cmd = ''dexsearch'', room_id = ''lobby'',
     room_title = ''Lobby'', room_rulesLink = None, room_chatRoomData = False,
     broadcasting = False, broadcast_ok = True, broadcasting_after = False,
     can = (\<lambda>p. False), Rooms_lobby = True, user_name = ''guest'',
     Tools = ex_tools ids, shuffle = rev, sanitize = (\<lambda>s. s), toId = ex_toId,
     body_rest = []\<rparr>"

definition denied_ctx :: "string \<Rightarrow> ctx" where
  \<comment> \<open>an invocation typed with "!" by a user who may not broadcast\<close>
  "denied_ctx tgt = (ex_ctx [] tgt)\<lparr>broadcast_ok := False\<rparr>"







definition glitch_tools :: tools where
  \<comment> \<open>a move lookup that answers "glitch" with a move under a name it does not know\<close>
  "glitch_tools = (ex_tools [''jynx''])\<lparr>getMove :=
     (\<lambda>w. if w = code_units ''glitch''
          then \<lparr>e_exists = True, e_name = ''Bogus'', e_id = ''bogus''\<rparr>
          else getMove (ex_tools [''jynx'']) w)\<rparr>"

definition glitch_ctx :: ctx where
  "glitch_ctx = (ex_ctx [] ''glitch'')\<lparr>Tools := glitch_tools\<rparr>"

definition rules_ctx :: ctx where
  \<comment> \<open>a user without any permission sets the rules link of a room\<close>
  "rules_ctx = ex_ctx [] ''http://example.com/rules''"

definition old_world :: world where
  "old_world = \<lparr>rulesLink = Some ''old'', chatRoomData_rulesLink = None, config_potd = ''mew''\<rparr>"

definition alice :: user where
  "alice = \<lparr>u_ref = 1, u_name = ''alice'', u_group = '' '', prevNames = [], u_alts = [],
     named = True, connected = True, isSysop = False, authenticated = True,
     ips = [''10.0.0.1''], latestIp = ''10.0.0.1'', roomCount = [''global'', ''lobby'']\<rparr>"

definition self_env :: whois_env where
  \<comment> \<open>alice, who holds no capability, looks herself up\<close>
  "self_env = \<lparr>w_user = alice, w_targetUser = Some alice, w_targetUsername = ''alice'',
     user_can = (\<lambda>p u. False), Users_get = (\<lambda>s. alice), group_name = (\<lambda>g. None),
     isPrivate = (\<lambda>r. False)\<rparr>"

section \<open>Properties\<close>

subsection \<open>Objects, the guard and the token loop\<close>

lemma obj_get_obj_put: "obj_get (obj_put m k v) k' = (if k' = k then Some v else obj_get m k')"
  by (induction m) (auto simp: obj_get_def)

lemma obj_get_foldl_put:
  "obj_get (foldl (\<lambda>m (k, v). obj_put m k v) m0 lit) k
     = (case map_of (rev lit) k of Some v \<Rightarrow> Some v | None \<Rightarrow> obj_get m0 k)"
proof (induction lit arbitrary: m0)
  case Nil
  then show ?case by simp
next
  case (Cons p lit)
  obtain k' v' where p: "p = (k', v')" by (cases p)
  show ?case
    by (simp add: p Cons.IH obj_get_obj_put map_add_def split: option.splits)
qed

lemma obj_get_commands: "obj_get commands k = map_of (rev commands_literal) k"
  unfolding commands_def obj_get_foldl_put
  by (simp add: obj_get_def split: option.splits)

lemma of_code_units_code_units [simp]: "of_code_units (code_units s) = s"
  by (simp add: of_code_units_def code_units_def comp_def)

lemma is_latin1_code_units [simp]: "is_latin1 (code_units s)"
  by (simp add: is_latin1_def code_units_def list_all_iff)

lemma is_latin1_append [simp]: "is_latin1 (v @ w) = (is_latin1 v \<and> is_latin1 w)"
  by (simp add: is_latin1_def)

lemma code_units_append: "code_units (s @ t) = code_units s @ code_units t"
  by (simp add: code_units_def)

lemma sendReply_units_code_units [simp]: "sendReply_units (code_units s) = SendReply s"
  by (simp add: sendReply_units_def)

lemma sendReply_units_head:
  "c \<noteq> d \<Longrightarrow> sendReply_units (code_units (c # s) @ w) \<noteq> SendReply (d # t)"
  by (simp add: sendReply_units_def of_code_units_def code_units_def)

lemma parse_targets_append:
  "parse_targets T bc st (xs @ ys) =
     (case parse_targets T bc st xs of Inl e \<Rightarrow> Inl e | Inr st' \<Rightarrow> parse_targets T bc st' ys)"
  by (induction xs arbitrary: st) (auto split: sum.splits)

lemma parse_targets_abort:
  assumes "parse_targets T bc st0 pre = Inr st" and "parse_token T bc st raw = Inl e"
  shows "parse_targets T bc st0 (pre @ raw # post) = Inl e"
  using assms by (simp add: parse_targets_append)

lemma canBroadcast_target [simp]: "target (snd (canBroadcast c)) = target c"
  and canBroadcast_Tools [simp]: "Tools (snd (canBroadcast c)) = Tools c"
  by (simp_all add: canBroadcast_def)

lemma guarded_ok:
  "fst (canBroadcast c) \<Longrightarrow> guarded c body = BroadcastCheck True # body (snd (canBroadcast c))"
  by (cases "canBroadcast c") (simp add: guarded_def)

lemma guarded_failed:
  "\<not> fst (canBroadcast c) \<Longrightarrow> guarded c body = [BroadcastCheck False]"
  by (cases "canBroadcast c") (simp add: guarded_def)

lemma dexsearch_parse_failure:
  assumes "fst (canBroadcast c)" and "target c \<noteq> []"
    and "parse_targets (Tools c) (broadcasting (snd (canBroadcast c))) pstate0
           (js_split '','' (target c)) = Inl e"
  shows "dexsearch c = [BroadcastCheck True, e]"
  using assms by (simp add: dexsearch_def guarded_ok)

lemma parse_token_unrecognised:
  assumes "unrecognised T raw"
  shows "parse_token T bc st raw =
     Inl (sendReply_units (code_units ''\"'' @ type_target (target_of raw)
            @ code_units ''\" could not be found in any of the search categories.''))"
  using assms
  by (auto simp: unrecognised_def no_keyword_def type_found_def parse_token_def Let_def)

lemma parse_token_ability_limit:
  assumes "is_ability_token T raw" "\<not> isNotSearch_of raw"
    and "required_count (s_ability (p_searches st)) = 1"
  shows "parse_token T bc st raw = Inl (SendReply ''Specify only one ability.'')"
  using assms
  by (simp add: is_ability_token_def required_count_def parse_token_def Let_def)

lemma parse_token_type_limit:
  assumes "is_type_token T raw" "\<not> isNotSearch_of raw"
    and "required_count (s_types (p_searches st)) = 2"
  shows "parse_token T bc st raw = Inl (SendReply ''Specify a maximum of two types.'')"
  using assms
  by (simp add: is_type_token_def no_keyword_def type_found_def required_count_def
      parse_token_def Let_def)

lemma parse_token_move_limit:
  assumes "is_move_token T raw" "\<not> isNotSearch_of raw"
    and "required_count (s_moves (p_searches st)) = 4"
  shows "parse_token T bc st raw = Inl (SendReply ''Specify a maximum of 4 moves.'')"
  using assms
  by (simp add: is_move_token_def no_keyword_def type_found_def required_count_def
      parse_token_def Let_def)

lemma parse_token_negated_never_limited:
  assumes "isNotSearch_of raw"
  shows "parse_token T bc st raw \<noteq> Inl (SendReply ''Specify only one ability.'')"
    and "parse_token T bc st raw \<noteq> Inl (SendReply ''Specify a maximum of two types.'')"
    and "parse_token T bc st raw \<noteq> Inl (SendReply ''Specify a maximum of 4 moves.'')"
  using assms by (auto simp: parse_token_def Let_def sendReply_units_head)

lemma type_target_no_type: "indexOf t '' type'' = None \<Longrightarrow> type_target t = code_units t"
  by (simp add: type_target_def)

lemma after_failed_check_Nil [simp]: "after_failed_check [] = []"
  by (simp add: after_failed_check_def)

lemma after_failed_check_Cons:
  "after_failed_check (e # es) = (if e = BroadcastCheck False then es else after_failed_check es)"
  by (simp add: after_failed_check_def)

lemma guarded_stops:
  "\<not> fst (canBroadcast c) \<Longrightarrow> after_failed_check (guarded c body) = []"
  by (simp add: guarded_failed after_failed_check_def)

subsection \<open>The type pass\<close>

lemma length_two_members:
  assumes "length xs = 2" "x \<in> set xs" "y \<in> set xs" "x \<noteq> y" "z \<in> set xs"
  shows "z = x \<or> z = y"
proof -
  from assms(1) obtain p q where xs: "xs = [p, q]"
    by (cases xs; cases "tl xs") auto
  with assms(2-5) show ?thesis by auto
qed

lemma obj_get_in_set: "obj_get m k = Some v \<Longrightarrow> (k, v) \<in> set m"
  by (simp add: obj_get_def map_of_SomeD)

lemma two_required:
  assumes cnt: "Object_count m True = 2"
    and a: "obj_get m a = Some True" and b: "obj_get m b = Some True" and ab: "a \<noteq> b"
    and k: "obj_get m k = Some True"
  shows "k = a \<or> k = b"
proof -
  let ?req = "filter (\<lambda>p. snd p = True) m"
  have len: "length ?req = 2" using cnt by (simp add: Object_count_def)
  have A: "(a, True) \<in> set ?req" and B: "(b, True) \<in> set ?req"
    and K: "(k, True) \<in> set ?req"
    using a b k by (auto dest: obj_get_in_set)
  have AB: "(a, True) \<noteq> (b, True)" using ab by simp
  have "(k, True) = (a, True) \<or> (k, True) = (b, True)"
    by (rule length_two_members [OF len A B AB K])
  then show ?thesis by simp
qed

lemma prop_truthy_own:
  assumes "prop_truthy m k" "k \<notin> set object_prototype"
  shows "obj_get m k = Some True"
  using assms by (auto simp: prop_truthy_def split: option.splits)

lemma undefined_not_inherited: "''undefined'' \<notin> set object_prototype"
  by (simp add: object_prototype_def)

lemma type_key_truthy:
  assumes "prop_truthy m (type_key t i)"
    and "''undefined'' \<notin> fst ` set m"
    and "set (types t) \<inter> set object_prototype = {}"
  shows "i < length (types t) \<and> obj_get m (types t ! i) = Some True"
proof (cases "i < length (types t)")
  case True
  then have "types t ! i \<notin> set object_prototype" using assms(3) by (meson disjoint_iff nth_mem)
  with assms(1) True show ?thesis by (simp add: type_key_def prop_truthy_own)
next
  case False
  then have "prop_truthy m ''undefined''" using assms(1) by (simp add: type_key_def)
  then have "obj_get m ''undefined'' = Some True"
    by (rule prop_truthy_own) (rule undefined_not_inherited)
  then have "''undefined'' \<in> fst ` set m" by (force dest: obj_get_in_set)
  with assms(2) show ?thesis by simp
qed

text \<open>
  Claim C1. When exactly two types are marked as required, every entry that survives
  the type pass has both required types among its types, and every entry that lacks a
  required type is removed. The entry's types are distinct type names (none is the name
  of a member of \<open>Object.prototype\<close>), and no searched type is called "undefined",
  as the parser capitalises every type it stores.
\<close>

theorem types_pass_two_required:
  assumes "Object_count m True = 2"
    and "''undefined'' \<notin> fst ` set m"
    and "distinct (types t)"
    and "set (types t) \<inter> set object_prototype = {}"
  shows "((mon, t) \<in> set (types_pass m dex) \<longrightarrow>
            (\<forall>ty. obj_get m ty = Some True \<longrightarrow> ty \<in> set (types t)))
       \<and> ((\<exists>ty. obj_get m ty = Some True \<and> ty \<notin> set (types t)) \<longrightarrow>
            (mon, t) \<notin> set (types_pass m dex))"
proof -
  have main: "\<forall>ty. obj_get m ty = Some True \<longrightarrow> ty \<in> set (types t)"
    if surv: "(mon, t) \<in> set (types_pass m dex)"
  proof (intro allI impI)
    fix ty assume ty: "obj_get m ty = Some True"
    from surv have "\<not> types_delete m t" by (simp add: types_pass_def)
    with assms(1) have "prop_truthy m (type_key t 0)" "prop_truthy m (type_key t 1)"
      by (simp_all add: types_delete_def)
    then have k0: "0 < length (types t)" "obj_get m (types t ! 0) = Some True"
      and k1: "1 < length (types t)" "obj_get m (types t ! 1) = Some True"
      using type_key_truthy [OF _ assms(2) assms(4)] by blast+
    have "types t ! 0 \<noteq> types t ! 1"
      using nth_eq_iff_index_eq [OF assms(3) k0(1) k1(1)] by simp
    with two_required [OF assms(1) k0(2) k1(2) _ ty]
    have "ty = types t ! 0 \<or> ty = types t ! 1" by simp
    with k0(1) k1(1) show "ty \<in> set (types t)" by (metis nth_mem)
  qed
  then show ?thesis by blast
qed

theorem types_pass_two_required_witness:
  "Object_count [(''Fire'', True), (''Water'', True)] True = 2
   \<and> (''volcanion'', volcanion)
        \<in> set (types_pass [(''Fire'', True), (''Water'', True)]
                 [(''charizard'', charizard), (''volcanion'', volcanion)])
   \<and> ''Fire'' \<in> set (types volcanion) \<and> ''Water'' \<in> set (types volcanion)
   \<and> obj_get [(''Fire'', True), (''Water'', True)] ''Water'' = Some True
   \<and> ''Water'' \<notin> set (types charizard)
   \<and> (''charizard'', charizard)
        \<notin> set (types_pass [(''Fire'', True), (''Water'', True)]
                 [(''charizard'', charizard), (''volcanion'', volcanion)])"
proof -
  let ?m = "[(''Fire'', True), (''Water'', True)]"
  let ?dex = "[(''charizard'', charizard), (''volcanion'', volcanion)]"
  have cnt: "Object_count ?m True = 2" by (simp add: Object_count_def)
  have und: "''undefined'' \<notin> fst ` set ?m" by simp
  have dc: "distinct (types charizard)" by (simp add: charizard_def)
  have pc: "set (types charizard) \<inter> set object_prototype = {}"
    by (simp add: charizard_def object_prototype_def)
  have w: "obj_get ?m ''Water'' = Some True" by (simp add: obj_get_def)
  have nw: "''Water'' \<notin> set (types charizard)" by (simp add: charizard_def)
  have surv: "(''volcanion'', volcanion) \<in> set (types_pass ?m ?dex)"
    by (simp add: types_pass_def types_delete_def Object_count_def type_key_def
        prop_truthy_def obj_get_def volcanion_def charizard_def)
  have tv: "''Fire'' \<in> set (types volcanion)" "''Water'' \<in> set (types volcanion)"
    by (simp_all add: volcanion_def)
  from types_pass_two_required [OF cnt und dc pc, of "''charizard''" ?dex] w nw
  have "(''charizard'', charizard) \<notin> set (types_pass ?m ?dex)" by blast
  with cnt surv tv w nw show ?thesis by blast
qed

text \<open>
  The second hypothesis of the theorem holds of every search spec the parser builds: a
  type is stored under its capitalised word, which is never "undefined".
\<close>

lemma toUpperCase1_not_u: "of_code_units (toUpperCase1 c @ w) \<noteq> ''undefined''"
proof -
  let ?n = "of_char c :: nat"
  have lt: "?n < 256" by simp
  consider (small) "(97 \<le> ?n \<and> ?n \<le> 122) \<or> (224 \<le> ?n \<and> ?n \<le> 254 \<and> ?n \<noteq> 247)"
    | (sharp) "?n = 223" | (micro) "?n = 181" | (y) "?n = 255"
    | (other) "\<not> ((97 \<le> ?n \<and> ?n \<le> 122) \<or> (224 \<le> ?n \<and> ?n \<le> 254 \<and> ?n \<noteq> 247))"
        "?n \<noteq> 223" "?n \<noteq> 181" "?n \<noteq> 255"
    by blast
  then obtain m v where up: "toUpperCase1 c = m # v" and m: "m mod 256 \<noteq> 117"
  proof cases
    case small
    then have "toUpperCase1 c = [?n - 32]" by (simp add: toUpperCase1_def Let_def)
    moreover have "(?n - 32) mod 256 \<noteq> 117" using small lt by auto
    ultimately show ?thesis using that by blast
  next
    case sharp
    then have "toUpperCase1 c = [83, 83]" by (simp add: toUpperCase1_def Let_def)
    then show ?thesis using that [of 83 "[83]"] by simp
  next
    case micro
    then have "toUpperCase1 c = [924]" by (simp add: toUpperCase1_def Let_def)
    then show ?thesis using that [of 924 "[]"] by simp
  next
    case y
    then have "toUpperCase1 c = [376]" by (simp add: toUpperCase1_def Let_def)
    then show ?thesis using that [of 376 "[]"] by simp
  next
    case other
    then have "toUpperCase1 c = [?n]" by (auto simp: toUpperCase1_def Let_def)
    moreover have "?n mod 256 \<noteq> 117" using other lt by auto
    ultimately show ?thesis using that by blast
  qed
  have "(char_of m :: char) \<noteq> CHR ''u''"
  proof
    assume "(char_of m :: char) = CHR ''u''"
    then have "(of_char (char_of m :: char) :: nat) = of_char (CHR ''u'')" by simp
    with m show False by simp
  qed
  with up show ?thesis by (simp add: of_code_units_def)
qed

lemma type_target_not_undefined:
  assumes "indexOf t '' type'' \<noteq> None"
  shows "of_code_units (type_target t) \<noteq> ''undefined''"
proof (cases t)
  case Nil
  with assms show ?thesis by simp
next
  case (Cons c cs)
  with assms show ?thesis
    using toUpperCase1_not_u by (auto simp: type_target_def)
qed

lemma obj_put_member:
  "(k', v') \<in> set (obj_put m k v) \<Longrightarrow> k' = k \<or> (k', v') \<in> set m"
  by (induction m) (auto split: if_splits)

lemma obj_set_member:
  "(k', v') \<in> set (obj_set m k v) \<Longrightarrow> k' = k \<or> (k', v') \<in> set m"
  by (cases "k = ''__proto__''") (auto simp: obj_set_def dest: obj_put_member)

lemma parse_token_s_types:
  assumes "parse_token T bc st raw = Inr st'"
  shows "s_types (p_searches st') = s_types (p_searches st)
       \<or> (indexOf (target_of raw) '' type'' \<noteq> None
             \<and> s_types (p_searches st')
                 = Some (obj_set (the_obj (s_types (p_searches st)))
                     (of_code_units (type_target (target_of raw))) (\<not> isNotSearch_of raw)))"
  using assms by (auto simp: parse_token_def Let_def split: if_splits)

lemma parse_token_types_keys:
  assumes "parse_token T bc st raw = Inr st'" and "types_keys_ok st"
  shows "types_keys_ok st'"
proof -
  from parse_token_s_types [OF assms(1)] show ?thesis
  proof
    assume "s_types (p_searches st') = s_types (p_searches st)"
    with assms(2) show ?thesis by (simp add: types_keys_ok_def)
  next
    assume "indexOf (target_of raw) '' type'' \<noteq> None
             \<and> s_types (p_searches st')
                 = Some (obj_set (the_obj (s_types (p_searches st)))
                     (of_code_units (type_target (target_of raw))) (\<not> isNotSearch_of raw))"
    then obtain t b where t: "indexOf t '' type'' \<noteq> None"
      and s: "s_types (p_searches st')
                = Some (obj_set (the_obj (s_types (p_searches st))) (of_code_units (type_target t)) b)"
      by blast
    show ?thesis
    proof (rule ccontr)
      assume "\<not> types_keys_ok st'"
      then obtain v where
        "(''undefined'', v) \<in> set (obj_set (the_obj (s_types (p_searches st))) (of_code_units (type_target t)) b)"
        using s by (auto simp: types_keys_ok_def the_obj_def)
      from obj_set_member [OF this] type_target_not_undefined [OF t]
      have "(''undefined'', v) \<in> set (the_obj (s_types (p_searches st)))" by auto
      with assms(2) show False by (force simp: types_keys_ok_def)
    qed
  qed
qed

lemma parse_targets_types_keys:
  assumes "parse_targets T bc st raws = Inr st'" and "types_keys_ok st"
  shows "types_keys_ok st'"
  using assms
  by (induction raws arbitrary: st) (auto split: sum.splits dest: parse_token_types_keys)

lemma parsed_types_never_undefined:
  assumes "parse_targets T bc pstate0 raws = Inr st" and "s_types (p_searches st) = Some m"
  shows "''undefined'' \<notin> fst ` set m"
proof -
  have "types_keys_ok pstate0"
    by (simp add: types_keys_ok_def pstate0_def no_searches_def the_obj_def)
  from parse_targets_types_keys [OF assms(1) this] assms(2) show ?thesis
    by (simp add: types_keys_ok_def the_obj_def)
qed

subsection \<open>The moves pass and evolutionary propagation\<close>

text \<open>
  When the second loop of the moves pass ends, no entry of \<open>dex\<close> holds \<open>false\<close>: each
  key that held it when the loop started has been visited and deleted, and the loop
  stores templates only. So the passes that follow, and the final list of species, read
  templates, and \<open>templates_of\<close> drops nothing.
\<close>

lemma obj_put_distinct: "distinct (map fst m) \<Longrightarrow> distinct (map fst (obj_put m k v))"
proof (induction m)
  case Nil
  then show ?case by simp
next
  case (Cons p m)
  obtain k' v' where p: "p = (k', v')" by (cases p)
  have "k'' = k \<or> k'' \<in> fst ` set m" if "k'' \<in> fst ` set (obj_put m k v)" for k''
    using that by (force dest: obj_put_member)
  with Cons p show ?case by auto
qed

lemma obj_delete_distinct: "distinct (map fst m) \<Longrightarrow> distinct (map fst (obj_delete m k))"
  by (simp add: obj_delete_def distinct_map_filter)

lemma obj_put_no_false:
  "(k, JsFalse) \<in> set (obj_put m e (Tmpl x)) \<Longrightarrow> (k, JsFalse) \<in> set m"
  by (induction m) (auto split: if_splits)

lemma evo_loop_distinct:
  "distinct (map fst dex) \<Longrightarrow> distinct (map fst (evo_loop T es dex))"
  by (induction es arbitrary: dex) (simp_all add: obj_put_distinct)

lemma evo_loop_no_false:
  "(k, JsFalse) \<in> set (evo_loop T es dex) \<Longrightarrow> (k, JsFalse) \<in> set dex"
  by (induction es arbitrary: dex) (auto dest: obj_put_no_false split: if_splits)

lemma obj_get_distinct: "distinct (map fst m) \<Longrightarrow> (k, v) \<in> set m \<Longrightarrow> obj_get m k = Some v"
  by (simp add: obj_get_def)

lemma obj_get_None_key: "obj_get m k = None \<Longrightarrow> (k, v) \<notin> set m"
  by (metis obj_get_def map_of_eq_None_iff fst_conv image_eqI)

lemma moves_loop2_no_false:
  assumes "distinct (map fst dex)" and "\<forall>k. (k, JsFalse) \<in> set dex \<longrightarrow> k \<in> set ks"
  shows "(k, JsFalse) \<notin> set (moves_loop2 T ks dex)"
  using assms
proof (induction ks arbitrary: dex)
  case Nil
  then show ?case by simp
next
  case (Cons mon ks)
  show ?case
  proof (cases "obj_get dex mon")
    case None
    have "\<forall>k. (k, JsFalse) \<in> set dex \<longrightarrow> k \<in> set ks"
      using Cons.prems(2) obj_get_None_key [OF None] by auto
    from Cons.IH [OF Cons.prems(1) this] None show ?thesis by simp
  next
    case (Some s)
    define dex1 where "dex1 = (case s of
        Tmpl d \<Rightarrow> if length (evos d) > 0 then evo_loop T (evos d) dex else dex
      | JsFalse \<Rightarrow> dex)"
    define dex2 where "dex2 =
        (if obj_get dex1 mon = Some JsFalse then obj_delete dex1 mon else dex1)"
    have d1: "distinct (map fst dex1)"
      using Cons.prems(1) by (auto simp: dex1_def evo_loop_distinct split: slot.splits)
    have f1: "(k', JsFalse) \<in> set dex" if "(k', JsFalse) \<in> set dex1" for k'
      using that by (auto simp: dex1_def dest: evo_loop_no_false split: slot.splits if_splits)
    have d2: "distinct (map fst dex2)"
      using d1 by (simp add: dex2_def obj_delete_distinct)
    have f2: "\<forall>k'. (k', JsFalse) \<in> set dex2 \<longrightarrow> k' \<in> set ks"
    proof (intro allI impI)
      fix k' assume in2: "(k', JsFalse) \<in> set dex2"
      then have in1: "(k', JsFalse) \<in> set dex1"
        by (auto simp: dex2_def obj_delete_def split: if_splits)
      have "k' \<noteq> mon"
      proof
        assume "k' = mon"
        with in1 d1 have "obj_get dex1 mon = Some JsFalse" by (simp add: obj_get_distinct)
        with in2 \<open>k' = mon\<close> show False by (simp add: dex2_def obj_delete_def)
      qed
      moreover from f1 [OF in1] Cons.prems(2) have "k' \<in> set (mon # ks)" by blast
      ultimately show "k' \<in> set ks" by simp
    qed
    have "moves_loop2 T (mon # ks) dex = moves_loop2 T ks dex2"
      using Some by (simp add: dex1_def dex2_def Let_def)
    with Cons.IH [OF d2 f2] show ?thesis by simp
  qed
qed

lemma templates_of_all:
  assumes "\<forall>k. (k, JsFalse) \<notin> set dex"
  shows "map (\<lambda>(mon, d). (mon, Tmpl d)) (templates_of dex) = dex"
  using assms
proof (induction dex)
  case Nil
  then show ?case by (simp add: templates_of_def)
next
  case (Cons p dex)
  obtain k s where p: "p = (k, s)" by (cases p)
  with Cons.prems obtain d where s: "s = Tmpl d" by (cases s) auto
  from Cons have "map (\<lambda>(mon, d). (mon, Tmpl d)) (templates_of dex) = dex" by auto
  with p s show ?case by (simp add: templates_of_def)
qed

lemma moves_inner_distinct:
  assumes "moves_inner T ls mon m dex = Inr dex'" and "distinct (map fst dex)"
  shows "distinct (map fst dex')"
  using assms
proof (induction m arbitrary: dex)
  case Nil
  then show ?case by simp
next
  case (Cons p m)
  obtain i required where p: "p = (i, required)" by (cases p)
  from Cons.prems p show ?case
    by (auto simp: Let_def obj_put_distinct obj_delete_distinct
        intro!: Cons.IH split: if_splits)
qed

lemma moves_loop1_distinct:
  assumes "moves_loop1 T m todo dex = Inr dex'" and "distinct (map fst dex)"
  shows "distinct (map fst dex')"
  using assms
proof (induction todo arbitrary: dex)
  case Nil
  then show ?case by simp
next
  case (Cons p todo)
  obtain mon d where p: "p = (mon, d)" by (cases p)
  from Cons.prems p show ?case
    by (auto split: option.splits sum.splits dest: moves_inner_distinct intro: Cons.IH)
qed

lemma moves_pass_keeps_every_slot:
  assumes "moves_pass T m dex = Inr r" and "distinct (map fst dex)"
  shows "\<exists>dex1. moves_loop1 T m dex (map (\<lambda>(mon, d). (mon, Tmpl d)) dex) = Inr dex1
           \<and> map (\<lambda>(mon, d). (mon, Tmpl d)) r = moves_loop2 T (map fst dex1) dex1"
proof -
  from assms(1) obtain dex1 where
    l1: "moves_loop1 T m dex (map (\<lambda>(mon, d). (mon, Tmpl d)) dex) = Inr dex1"
    and r: "r = templates_of (moves_loop2 T (map fst dex1) dex1)"
    by (auto simp: moves_pass_def split: sum.splits)
  have "distinct (map fst (map (\<lambda>(mon, d). (mon, Tmpl d)) dex))"
    using assms(2) by (simp add: comp_def case_prod_beta)
  from moves_loop1_distinct [OF l1 this] have d1: "distinct (map fst dex1)" .
  have "\<forall>k. (k, JsFalse) \<in> set dex1 \<longrightarrow> k \<in> set (map fst dex1)" by force
  from moves_loop2_no_false [OF d1 this]
  have "\<forall>k. (k, JsFalse) \<notin> set (moves_loop2 T (map fst dex1) dex1)" by blast
  from templates_of_all [OF this] l1 r show ?thesis by blast
qed

text \<open>
  Propagation looks at no learnset: the loop over \<open>evos\<close> stores the template of every
  listed evolution whose entry is not \<open>false\<close> at that moment.
\<close>

lemma evo_loop_keeps:
  "obj_get dex e = Some (Tmpl (getTemplate T e))
   \<Longrightarrow> obj_get (evo_loop T es dex) e = Some (Tmpl (getTemplate T e))"
  by (induction es arbitrary: dex) (auto simp: obj_get_obj_put)

lemma evo_loop_adds:
  assumes "e \<in> set es" and "obj_get dex e \<noteq> Some JsFalse"
  shows "obj_get (evo_loop T es dex) e = Some (Tmpl (getTemplate T e))"
  using assms
proof (induction es arbitrary: dex)
  case Nil
  then show ?case by simp
next
  case (Cons e' es)
  show ?case
  proof (cases "e' = e")
    case True
    with Cons.prems(2) show ?thesis by (simp add: evo_loop_keeps obj_get_obj_put)
  next
    case False
    with Cons.prems have "e \<in> set es" by simp
    moreover have "obj_get (if obj_get dex e' \<noteq> Some JsFalse
        then obj_put dex e' (Tmpl (getTemplate T e')) else dex) e \<noteq> Some JsFalse"
      using Cons.prems(2) False by (simp add: obj_get_obj_put)
    ultimately show ?thesis using Cons.IH by simp
  qed
qed

text \<open>
  Claim C2. An entry removed by an excluded move is never reinstated by evolutionary
  propagation. The code breaks this when the evolved form comes before its
  pre-evolution in the Pokedex, as Jynx (number 124) comes before Smoochum (number
  238). In the example catalog Jynx learns Lovely Kiss and Smoochum does not: the
  search for "!lovely kiss" marks Jynx as excluded, the second loop deletes the mark
  when it visits Jynx, and the visit of Smoochum then finds no mark and puts Jynx back.
  With the two entries in the other order the mark is still there and Jynx stays out.
\<close>

theorem excluded_evolution_reinstated:
  "canLearn (the (learnset jynx)) (getMove (ex_tools [''jynx'', ''smoochum'']) (code_units ''Lovely Kiss''))
   \<and> \<not> canLearn (the (learnset smoochum)) (getMove (ex_tools [''jynx'', ''smoochum'']) (code_units ''Lovely Kiss''))
   \<and> parse_targets (ex_tools [''jynx'', ''smoochum'']) False pstate0 [''!lovely kiss'']
       = Inr (pstate0\<lparr>p_searches := no_searches\<lparr>s_moves := Some [(''Lovely Kiss'', False)]\<rparr>\<rparr>)
   \<and> dexsearch (ex_ctx [''jynx'', ''smoochum''] ''!lovely kiss'')
       = [BroadcastCheck True, SendReplyBox ''Jynx, Smoochum'']
   \<and> dexsearch (ex_ctx [''smoochum'', ''jynx''] ''!lovely kiss'')
       = [BroadcastCheck True, SendReplyBox ''Smoochum'']"
  by code_simp

subsection \<open>The order of the results\<close>


lemma canBroadcast_shuffle [simp]: "shuffle (snd (canBroadcast c)) = shuffle c"
  by (simp add: canBroadcast_def)








subsection \<open>The aliases of the command table\<close>

text \<open>
  Claim C4. Every alias of the command table names a key whose value is a handler.
  The code breaks this at \<open>lyzz\<close>: its value is the string "Lynn", and the table has
  no key "Lynn" (the handler is stored under "lynn"), so the redirect of \<open>/lyzz\<close>
  dangles.
\<close>

theorem lyzz_alias_dangles:
  "obj_get commands ''lyzz'' = Some (Alias ''Lynn'') \<and> obj_get commands ''Lynn'' = None"
  by (simp add: obj_get_commands commands_literal_def)

subsection \<open>Tokens in no category, unknown moves\<close>

lemma moves_inner_unknown:
  assumes "\<forall>(j, b') \<in> set pre. e_exists (getMove T (code_units j))" and "\<not> e_exists (getMove T (code_units i))"
  shows "moves_inner T ls mon (pre @ (i, b) # post) dex =
     Inl (SendReplyBox (''\"'' @ effect_toString (getMove T (code_units i)) @ ''\" is not a known move.''))"
  using assms
  by (induction pre arbitrary: dex) (auto simp: Let_def)

lemma moves_loop1_unknown:
  assumes "\<forall>(j, b') \<in> set pre. e_exists (getMove T (code_units j))" and "\<not> e_exists (getMove T (code_units i))"
    and "\<exists>(mon, d) \<in> set todo. learnset (learnset_template T d) \<noteq> None"
  shows "moves_loop1 T (pre @ (i, b) # post) todo dex =
     Inl (SendReplyBox (''\"'' @ effect_toString (getMove T (code_units i)) @ ''\" is not a known move.''))"
  using assms(3)
proof (induction todo arbitrary: dex)
  case Nil
  then show ?case by simp
next
  case (Cons p todo)
  obtain mon d where p: "p = (mon, d)" by (cases p)
  show ?case
  proof (cases "learnset (learnset_template T d)")
    case None
    with Cons.prems p have "\<exists>(mon, d) \<in> set todo. learnset (learnset_template T d) \<noteq> None"
      by auto
    from Cons.IH [OF this] None p show ?thesis by simp
  next
    case (Some ls)
    with p show ?thesis by (simp add: moves_inner_unknown [OF assms(1,2)])
  qed
qed

lemma filter_dex_unknown_move:
  assumes "s_moves (p_searches st) = Some (pre @ (i, b) # post)"
    and "\<forall>(j, b') \<in> set pre. e_exists (getMove T (code_units j))" and "\<not> e_exists (getMove T (code_units i))"
    and "\<exists>(mon, d) \<in> set (initial_dex T st). learnset (learnset_template T d) \<noteq> None"
  shows "filter_dex T st =
     Inl (SendReplyBox (''\"'' @ effect_toString (getMove T (code_units i)) @ ''\" is not a known move.''))"
  using assms(1) moves_loop1_unknown [OF assms(2,3,4)]
  by (simp add: filter_dex_def moves_pass_def Let_def)

lemma Object_size_moves: "s_moves s = Some m \<Longrightarrow> Object_size s \<noteq> 0"
  by (simp add: Object_size_def)

lemma dexsearch_filter_failure:
  assumes "fst (canBroadcast c)" and "target c \<noteq> []"
    and "parse_targets (Tools c) (broadcasting (snd (canBroadcast c))) pstate0
           (js_split '','' (target c)) = Inr st"
    and "Object_size (p_searches st) \<noteq> 0"
    and "filter_dex (Tools c) st = Inl e"
  shows "dexsearch c = [BroadcastCheck True, e]"
  using assms by (simp add: dexsearch_def guarded_ok)

text \<open>
  The moves of the search spec are names that the move lookup has returned. With a
  lookup that resolves every name it returns, each of them resolves again in the moves
  pass and the filter never stops with "is not a known move": that reply needs a lookup
  without this property.
\<close>

lemma parse_token_s_moves:
  assumes "parse_token T bc st raw = Inr st'"
  shows "s_moves (p_searches st') = s_moves (p_searches st)
       \<or> (e_exists (getMove T (type_target (target_of raw)))
             \<and> s_moves (p_searches st')
                 = Some (obj_set (the_obj (s_moves (p_searches st)))
                     (e_name (getMove T (type_target (target_of raw)))) (\<not> isNotSearch_of raw)))"
  using assms by (auto simp: parse_token_def Let_def split: if_splits)

lemma parse_token_moves_keys:
  assumes "consistent_lookup T" and "parse_token T bc st raw = Inr st'"
    and "moves_keys_ok T st"
  shows "moves_keys_ok T st'"
proof -
  from parse_token_s_moves [OF assms(2)] show ?thesis
  proof
    assume "s_moves (p_searches st') = s_moves (p_searches st)"
    with assms(3) show ?thesis by (simp add: moves_keys_ok_def)
  next
    assume "e_exists (getMove T (type_target (target_of raw)))
             \<and> s_moves (p_searches st')
                 = Some (obj_set (the_obj (s_moves (p_searches st)))
                     (e_name (getMove T (type_target (target_of raw)))) (\<not> isNotSearch_of raw))"
    then obtain w b where w: "e_exists (getMove T w)"
      and s: "s_moves (p_searches st')
                = Some (obj_set (the_obj (s_moves (p_searches st))) (e_name (getMove T w)) b)"
      by blast
    from w assms(1) have r: "e_exists (getMove T (code_units (e_name (getMove T w))))"
      by (simp add: consistent_lookup_def)
    show ?thesis
      unfolding moves_keys_ok_def
    proof
      fix k
      assume "k \<in> fst ` set (the_obj (s_moves (p_searches st')))"
      then obtain v where
        "(k, v) \<in> set (obj_set (the_obj (s_moves (p_searches st))) (e_name (getMove T w)) b)"
        using s by (auto simp: the_obj_def)
      from obj_set_member [OF this]
      show "e_exists (getMove T (code_units k))"
      proof
        assume "k = e_name (getMove T w)"
        with r show ?thesis by simp
      next
        assume "(k, v) \<in> set (the_obj (s_moves (p_searches st)))"
        with assms(3) show ?thesis by (force simp: moves_keys_ok_def)
      qed
    qed
  qed
qed

lemma parse_targets_moves_keys:
  assumes "consistent_lookup T" and "parse_targets T bc st raws = Inr st'"
    and "moves_keys_ok T st"
  shows "moves_keys_ok T st'"
  using assms(2,3)
  by (induction raws arbitrary: st)
     (auto split: sum.splits dest: parse_token_moves_keys [OF assms(1)])

lemma moves_inner_resolved:
  assumes "\<forall>k \<in> fst ` set m. e_exists (getMove T (code_units k))"
  shows "\<exists>dex'. moves_inner T ls mon m dex = Inr dex'"
  using assms by (induction m arbitrary: dex) (auto simp: Let_def)

lemma moves_loop1_resolved:
  assumes "\<forall>k \<in> fst ` set m. e_exists (getMove T (code_units k))"
  shows "\<exists>dex'. moves_loop1 T m todo dex = Inr dex'"
proof (induction todo arbitrary: dex)
  case Nil
  then show ?case by simp
next
  case (Cons p todo)
  obtain mon d where p: "p = (mon, d)" by (cases p)
  show ?case
  proof (cases "learnset (learnset_template T d)")
    case None
    with Cons.IH p show ?thesis by simp
  next
    case (Some ls)
    from moves_inner_resolved [OF assms] obtain dex' where
      "moves_inner T ls mon m dex = Inr dex'" by blast
    with Cons.IH [of dex'] p Some show ?thesis by simp
  qed
qed

lemma consistent_lookup_never_fails:
  assumes "consistent_lookup T" and "parse_targets T bc pstate0 raws = Inr st"
  shows "\<exists>dex. filter_dex T st = Inr dex"
proof -
  have "moves_keys_ok T pstate0"
    by (simp add: moves_keys_ok_def pstate0_def no_searches_def the_obj_def)
  from parse_targets_moves_keys [OF assms(1,2) this]
  have ok: "moves_keys_ok T st" .
  show ?thesis
  proof (cases "s_moves (p_searches st)")
    case None
    then show ?thesis by (simp add: filter_dex_def Let_def)
  next
    case (Some m)
    with ok have "\<forall>k \<in> fst ` set m. e_exists (getMove T (code_units k))"
      by (simp add: moves_keys_ok_def the_obj_def)
    from moves_loop1_resolved [OF this]
    obtain dex' where
      "moves_loop1 T m (initial_dex T st) (map (\<lambda>(mon, d). (mon, Tmpl d)) (initial_dex T st))
         = Inr dex'" by blast
    with Some show ?thesis by (simp add: filter_dex_def moves_pass_def Let_def)
  qed
qed

text \<open>
  Claim C5 as stated (the message names the offending token) does not hold of a token
  that holds " type": the type branch has by then overwritten \<open>target\<close> with the
  capitalised text before " type", and it is this text that the message quotes. The
  token "foo type" is reported as "Foo" and "tapu typeless koko" as "Tapu"; for a token
  that starts with the micro sign the quoted text starts with the capital U+039C.
\<close>

theorem type_phrase_token_misquoted:
  "unrecognised (ex_tools [''jynx'']) ''foo type''
   \<and> dexsearch (ex_ctx [''jynx''] ''foo type'')
       = [BroadcastCheck True,
          SendReply ''\"Foo\" could not be found in any of the search categories.'']
   \<and> unrecognised (ex_tools [''jynx'']) ''tapu typeless koko''
   \<and> dexsearch (ex_ctx [''jynx''] ''tapu typeless koko'')
       = [BroadcastCheck True,
          SendReply ''\"Tapu\" could not be found in any of the search categories.'']
   \<and> dexsearch (ex_ctx [''jynx''] (CHR 0xB5 # ''g type''))
       = [BroadcastCheck True,
          SendReplyUnits (code_units ''\"'' @ [924] @
            code_units ''g\" could not be found in any of the search categories.'')]"
  by code_simp

text \<open>
  Claim C5, amended. When the tokens before it have been parsed and a token is in no
  category, dexsearch stops with the single reply that says that the quoted text could
  not be found in any of the search categories: no search is run. The quoted text is
  the target the parser holds at that point: for a token without " type" the token
  itself, trimmed, in lower case and without its negation mark; for a token with
  " type" the text before the first " type", its first character in upper case.
  Likewise, when every token has been parsed, a move of the search spec does not
  resolve in the moves pass and some candidate has a learnset, dexsearch stops with the
  single reply that names the first such move, as the failed lookup prints it.
\<close>

theorem unrecognised_token_reply:
  "(fst (canBroadcast c) \<and> target c \<noteq> []
      \<and> js_split '','' (target c) = pre @ raw # post
      \<and> parse_targets (Tools c) (broadcasting (snd (canBroadcast c))) pstate0 pre = Inr st
      \<and> unrecognised (Tools c) raw
    \<longrightarrow> dexsearch c =
          [BroadcastCheck True,
           sendReply_units (code_units ''\"'' @ type_target (target_of raw)
             @ code_units ''\" could not be found in any of the search categories.'')]
        \<and> (indexOf (target_of raw) '' type'' = None
             \<longrightarrow> dexsearch c =
                   [BroadcastCheck True,
                    SendReply (''\"'' @ target_of raw
                      @ ''\" could not be found in any of the search categories.'')])
        \<and> (\<forall>i ch rest. indexOf (target_of raw) '' type'' = Some i \<and> target_of raw = ch # rest
             \<longrightarrow> type_target (target_of raw)
                   = toUpperCase1 ch @ code_units (slice (target_of raw) 1 i)))
   \<and> (fst (canBroadcast c') \<and> target c' \<noteq> []
      \<and> parse_targets (Tools c') (broadcasting (snd (canBroadcast c'))) pstate0
            (js_split '','' (target c')) = Inr st'
      \<and> s_moves (p_searches st') = Some (known @ (i, b) # others)
      \<and> (\<forall>(j, b') \<in> set known. e_exists (getMove (Tools c') (code_units j)))
      \<and> \<not> e_exists (getMove (Tools c') (code_units i))
      \<and> (\<exists>(mon, d) \<in> set (initial_dex (Tools c') st').
             learnset (learnset_template (Tools c') d) \<noteq> None)
    \<longrightarrow> dexsearch c' =
          [BroadcastCheck True,
           SendReplyBox (''\"'' @ e_name (getMove (Tools c') (code_units i))
             @ ''\" is not a known move.'')])"
proof (intro conjI impI allI)
  assume a: "fst (canBroadcast c) \<and> target c \<noteq> []
      \<and> js_split '','' (target c) = pre @ raw # post
      \<and> parse_targets (Tools c) (broadcasting (snd (canBroadcast c))) pstate0 pre = Inr st
      \<and> unrecognised (Tools c) raw"
  then have "parse_targets (Tools c) (broadcasting (snd (canBroadcast c))) pstate0
               (js_split '','' (target c))
             = Inl (sendReply_units (code_units ''\"'' @ type_target (target_of raw)
                      @ code_units ''\" could not be found in any of the search categories.''))"
    by (simp add: parse_targets_abort parse_token_unrecognised)
  with a show r: "dexsearch c =
          [BroadcastCheck True,
           sendReply_units (code_units ''\"'' @ type_target (target_of raw)
             @ code_units ''\" could not be found in any of the search categories.'')]"
    by (simp add: dexsearch_parse_failure)
  assume "indexOf (target_of raw) '' type'' = None"
  then have "type_target (target_of raw) = code_units (target_of raw)"
    by (rule type_target_no_type)
  then have "sendReply_units (code_units ''\"'' @ type_target (target_of raw)
             @ code_units ''\" could not be found in any of the search categories.'')
           = SendReply (''\"'' @ target_of raw
               @ ''\" could not be found in any of the search categories.'')"
    using sendReply_units_code_units
      [of "''\"'' @ target_of raw @ ''\" could not be found in any of the search categories.''"]
    by (simp only: code_units_append)
  with r show "dexsearch c =
                   [BroadcastCheck True,
                    SendReply (''\"'' @ target_of raw
                      @ ''\" could not be found in any of the search categories.'')]"
    by (simp only:)
next
  fix i ch rest
  assume "indexOf (target_of raw) '' type'' = Some i \<and> target_of raw = ch # rest"
  then have i: "indexOf (target_of raw) '' type'' = Some i" and t: "target_of raw = ch # rest"
    by blast+
  have "type_target (target_of raw)
          = (case target_of raw of [] \<Rightarrow> [] | c # cs \<Rightarrow> toUpperCase1 c)
            @ code_units (slice (target_of raw) 1 i)"
    unfolding type_target_def i by simp
  then show "type_target (target_of raw)
                   = toUpperCase1 ch @ code_units (slice (target_of raw) 1 i)"
    by (simp add: t)
next
  assume a: "fst (canBroadcast c') \<and> target c' \<noteq> []
      \<and> parse_targets (Tools c') (broadcasting (snd (canBroadcast c'))) pstate0
            (js_split '','' (target c')) = Inr st'
      \<and> s_moves (p_searches st') = Some (known @ (i, b) # others)
      \<and> (\<forall>(j, b') \<in> set known. e_exists (getMove (Tools c') (code_units j)))
      \<and> \<not> e_exists (getMove (Tools c') (code_units i))
      \<and> (\<exists>(mon, d) \<in> set (initial_dex (Tools c') st').
             learnset (learnset_template (Tools c') d) \<noteq> None)"
  then have "filter_dex (Tools c') st' =
          Inl (SendReplyBox (''\"'' @ e_name (getMove (Tools c') (code_units i))
                 @ ''\" is not a known move.''))"
    using filter_dex_unknown_move [of st' known i b others "Tools c'"]
    by (simp add: effect_toString_def)
  moreover from a have "Object_size (p_searches st') \<noteq> 0"
    using Object_size_moves by blast
  ultimately show "dexsearch c' =
          [BroadcastCheck True,
           SendReplyBox (''\"'' @ e_name (getMove (Tools c') (code_units i))
             @ ''\" is not a known move.'')]"
    using a dexsearch_filter_failure by blast
qed

theorem unrecognised_token_reply_witness:
  "unrecognised (Tools (ex_ctx [''jynx'', ''smoochum''] ''fire type, Tapu '')) '' Tapu ''
   \<and> dexsearch (ex_ctx [''jynx'', ''smoochum''] ''fire type, Tapu '')
       = [BroadcastCheck True,
          SendReply ''\"tapu\" could not be found in any of the search categories.'']
   \<and> parse_targets (Tools glitch_ctx) False pstate0 [''glitch'']
       = Inr (pstate0\<lparr>p_searches := no_searches\<lparr>s_moves := Some [(''Bogus'', True)]\<rparr>\<rparr>)
   \<and> dexsearch glitch_ctx
       = [BroadcastCheck True, SendReplyBox ''\"Bogus\" is not a known move.'']"
proof -
  let ?c = "ex_ctx [''jynx'', ''smoochum''] ''fire type, Tapu ''"
  let ?st = "pstate0\<lparr>p_searches := no_searches\<lparr>s_types := Some [(''Fire'', True)]\<rparr>\<rparr>"
  let ?st' = "pstate0\<lparr>p_searches := no_searches\<lparr>s_moves := Some [(''Bogus'', True)]\<rparr>\<rparr>"
  have u: "unrecognised (Tools ?c) '' Tapu ''" by code_simp
  have h1: "fst (canBroadcast ?c) \<and> target ?c \<noteq> []
      \<and> js_split '','' (target ?c) = [''fire type''] @ '' Tapu '' # []
      \<and> parse_targets (Tools ?c) (broadcasting (snd (canBroadcast ?c))) pstate0 [''fire type'']
          = Inr ?st
      \<and> unrecognised (Tools ?c) '' Tapu ''"
    by code_simp
  have n: "indexOf (target_of '' Tapu '') '' type'' = None"
    and t: "target_of '' Tapu '' = ''tapu''"
    by code_simp+
  have p: "parse_targets (Tools glitch_ctx) False pstate0 [''glitch''] = Inr ?st'"
    by code_simp
  have h2: "fst (canBroadcast glitch_ctx) \<and> target glitch_ctx \<noteq> []
      \<and> parse_targets (Tools glitch_ctx) (broadcasting (snd (canBroadcast glitch_ctx))) pstate0
            (js_split '','' (target glitch_ctx)) = Inr ?st'
      \<and> s_moves (p_searches ?st') = Some ([] @ (''Bogus'', True) # [])
      \<and> (\<forall>(j, b') \<in> set []. e_exists (getMove (Tools glitch_ctx) (code_units j)))
      \<and> \<not> e_exists (getMove (Tools glitch_ctx) (code_units ''Bogus''))
      \<and> (\<exists>(mon, d) \<in> set (initial_dex (Tools glitch_ctx) ?st').
             learnset (learnset_template (Tools glitch_ctx) d) \<noteq> None)"
    by code_simp
  have m: "e_name (getMove (Tools glitch_ctx) (code_units ''Bogus'')) = ''Bogus''" by code_simp
  from unrecognised_token_reply [where c = ?c and pre = "[''fire type'']" and raw = "'' Tapu ''"
      and post = "[]" and st = ?st and c' = glitch_ctx and st' = ?st' and known = "[]"
      and i = "''Bogus''" and b = True and others = "[]"] h1 h2 n
  have "dexsearch ?c =
          [BroadcastCheck True,
           SendReply (''\"'' @ target_of '' Tapu ''
             @ ''\" could not be found in any of the search categories.'')]"
    and "dexsearch glitch_ctx =
          [BroadcastCheck True,
           SendReplyBox (''\"'' @ e_name (getMove (Tools glitch_ctx) (code_units ''Bogus''))
             @ ''\" is not a known move.'')]"
    by blast+
  with u t m p show ?thesis by simp
qed

subsection \<open>The tier pass and Little Cup\<close>

text \<open>
  Claim C6. With "lc" required, the tier pass keeps exactly the entries that are LC by
  the derived criteria, whatever their stored tier. The code breaks this for the very
  entries its comment names: Ferroseed is LC by the criteria (it evolves, has no
  pre-evolution and is not banned) and is stored in another tier; it passes the derived
  check, falls through to the comparison with the stored tier and is deleted there.
\<close>

theorem lc_search_drops_derived_lc:
  "isLC (ex_tools [''ferroseed'', ''ferrothorn'']) ferroseed
   \<and> tier_pass (ex_tools [''ferroseed'', ''ferrothorn'']) [(''lc'', True)]
        [(''ferroseed'', ferroseed)] = []
   \<and> dexsearch (ex_ctx [''ferroseed'', ''ferrothorn''] ''lc'')
       = [BroadcastCheck True, SendReplyBox (''No Pok'' @ [CHR 0xE9] @ ''mon found.'')]"
  by code_simp

subsection \<open>The limits on required abilities, types and moves\<close>

text \<open>
  Claim C7 as stated (more than one ability, two types or four moves in a query is a
  parse failure) does not hold: the limits count required values only. A query with
  two required types and an excluded one, or with a required and an excluded ability,
  is parsed and searched.
\<close>

theorem negated_types_not_limited:
  "is_type_token (ex_tools [''charizard'', ''volcanion'']) ''fire type''
   \<and> is_type_token (ex_tools [''charizard'', ''volcanion'']) '' water type''
   \<and> is_type_token (ex_tools [''charizard'', ''volcanion'']) '' !grass type''
   \<and> dexsearch (ex_ctx [''charizard'', ''volcanion''] ''fire type, water type, !grass type'')
       = [BroadcastCheck True, SendReplyBox ''Volcanion'']
   \<and> is_ability_token (ex_tools [''charizard'', ''volcanion'']) ''blaze''
   \<and> is_ability_token (ex_tools [''charizard'', ''volcanion'']) '' !water absorb''
   \<and> dexsearch (ex_ctx [''charizard'', ''volcanion''] ''blaze, !water absorb'')
       = [BroadcastCheck True, SendReplyBox ''Charizard'']"
  by code_simp

text \<open>
  Claim C7, amended. When the tokens before it have been parsed and a token that is
  not negated is an ability while the search spec holds one required ability, or a type
  while it holds two required types, or a move while it holds four required moves,
  dexsearch stops with the single reply of that limit: no search is run. A negated
  token is not counted (the counts are of the required values) and never meets a limit.
\<close>

theorem required_arity_limits:
  assumes "fst (canBroadcast c)" and "target c \<noteq> []"
    and "js_split '','' (target c) = pre @ raw # post"
    and "parse_targets (Tools c) (broadcasting (snd (canBroadcast c))) pstate0 pre = Inr st"
  shows "(\<not> isNotSearch_of raw \<and> is_ability_token (Tools c) raw
            \<and> required_count (s_ability (p_searches st)) = 1
            \<longrightarrow> dexsearch c = [BroadcastCheck True, SendReply ''Specify only one ability.''])
       \<and> (\<not> isNotSearch_of raw \<and> is_type_token (Tools c) raw
            \<and> required_count (s_types (p_searches st)) = 2
            \<longrightarrow> dexsearch c = [BroadcastCheck True, SendReply ''Specify a maximum of two types.''])
       \<and> (\<not> isNotSearch_of raw \<and> is_move_token (Tools c) raw
            \<and> required_count (s_moves (p_searches st)) = 4
            \<longrightarrow> dexsearch c = [BroadcastCheck True, SendReply ''Specify a maximum of 4 moves.''])
       \<and> (isNotSearch_of raw
            \<longrightarrow> parse_token (Tools c) (broadcasting (snd (canBroadcast c))) st raw
                  \<notin> {Inl (SendReply ''Specify only one ability.''),
                      Inl (SendReply ''Specify a maximum of two types.''),
                      Inl (SendReply ''Specify a maximum of 4 moves.'')})"
proof -
  have abort: "dexsearch c = [BroadcastCheck True, e]"
    if "parse_token (Tools c) (broadcasting (snd (canBroadcast c))) st raw = Inl e" for e
    using assms that by (simp add: dexsearch_parse_failure parse_targets_abort)
  show ?thesis
    using parse_token_negated_never_limited [of raw "Tools c" _ st]
    by (auto intro!: abort parse_token_ability_limit parse_token_type_limit
        parse_token_move_limit)
qed

theorem required_arity_limits_witness:
  "is_type_token (ex_tools [''charizard'', ''volcanion'']) '' grass type''
   \<and> required_count (s_types (p_searches
        (pstate0\<lparr>p_searches := no_searches\<lparr>s_types := Some [(''Fire'', True), (''Water'', True)]\<rparr>\<rparr>))) = 2
   \<and> dexsearch (ex_ctx [''charizard'', ''volcanion''] ''fire type, water type, grass type'')
       = [BroadcastCheck True, SendReply ''Specify a maximum of two types.'']"
proof -
  let ?c = "ex_ctx [''charizard'', ''volcanion''] ''fire type, water type, grass type''"
  let ?st = "pstate0\<lparr>p_searches := no_searches\<lparr>s_types := Some [(''Fire'', True), (''Water'', True)]\<rparr>\<rparr>"
  have h1: "fst (canBroadcast ?c)" and h2: "target ?c \<noteq> []"
    and h3: "js_split '','' (target ?c) = [''fire type'', '' water type''] @ '' grass type'' # []"
    and h4: "parse_targets (Tools ?c) (broadcasting (snd (canBroadcast ?c))) pstate0
               [''fire type'', '' water type''] = Inr ?st"
    and h5: "\<not> isNotSearch_of '' grass type''"
    by code_simp+
  have t: "is_type_token (Tools ?c) '' grass type''"
    and r: "required_count (s_types (p_searches ?st)) = 2"
    by code_simp+
  have T: "Tools ?c = ex_tools [''charizard'', ''volcanion'']" by (simp add: ex_ctx_def)
  from required_arity_limits [OF h1 h2 h3 h4] h5 t r
  have "dexsearch ?c = [BroadcastCheck True, SendReply ''Specify a maximum of two types.'']"
    by blast
  with t r T show ?thesis by simp
qed

subsection \<open>After a failed broadcast check\<close>

lemma data_stops: "\<not> fst (canBroadcast c) \<Longrightarrow> after_failed_check (data c) = []"
  unfolding data_def by (rule guarded_stops)

lemma dexsearch_stops: "\<not> fst (canBroadcast c) \<Longrightarrow> after_failed_check (dexsearch c) = []"
  unfolding dexsearch_def by (rule guarded_stops)

lemma learn_stops: "\<not> fst (canBroadcast c) \<Longrightarrow> after_failed_check (learn c) = []"
  by (simp add: learn_def guarded_stops after_failed_check_Cons)

lemma effectiveness_stops: "\<not> fst (canBroadcast c) \<Longrightarrow> after_failed_check (effectiveness c) = []"
  by (simp add: effectiveness_def guarded_stops after_failed_check_Cons Let_def
      split: option.splits prod.splits)

lemma uptime_stops: "\<not> fst (canBroadcast c) \<Longrightarrow> after_failed_check (uptime c) = []"
  unfolding uptime_def by (rule guarded_stops)

lemma groups_stops: "\<not> fst (canBroadcast c) \<Longrightarrow> after_failed_check (groups c) = []"
  unfolding groups_def by (rule guarded_stops)

lemma website_stops: "\<not> fst (canBroadcast c) \<Longrightarrow> after_failed_check (website c) = []"
  unfolding website_def by (rule guarded_stops)

lemma forum_stops: "\<not> fst (canBroadcast c) \<Longrightarrow> after_failed_check (forum c) = []"
  unfolding forum_def by (rule guarded_stops)

lemma opensource_stops: "\<not> fst (canBroadcast c) \<Longrightarrow> after_failed_check (opensource c) = []"
  unfolding opensource_def by (rule guarded_stops)

lemma avatars_stops: "\<not> fst (canBroadcast c) \<Longrightarrow> after_failed_check (avatars c) = []"
  unfolding avatars_def by (rule guarded_stops)

lemma intro_stops: "\<not> fst (canBroadcast c) \<Longrightarrow> after_failed_check (intro c) = []"
  unfolding intro_def by (rule guarded_stops)

lemma smogintro_stops: "\<not> fst (canBroadcast c) \<Longrightarrow> after_failed_check (smogintro c) = []"
  unfolding smogintro_def by (rule guarded_stops)

lemma calc_stops: "\<not> fst (canBroadcast c) \<Longrightarrow> after_failed_check (calc c) = []"
  unfolding calc_def by (rule guarded_stops)

lemma cap_stops: "\<not> fst (canBroadcast c) \<Longrightarrow> after_failed_check (cap c) = []"
  unfolding cap_def by (rule guarded_stops)

lemma gennext_stops: "\<not> fst (canBroadcast c) \<Longrightarrow> after_failed_check (gennext c) = []"
  unfolding gennext_def by (rule guarded_stops)

lemma othermetas_stops: "\<not> fst (canBroadcast c) \<Longrightarrow> after_failed_check (othermetas c) = []"
  unfolding othermetas_def by (rule guarded_stops)

lemma roomhelp_stops: "\<not> fst (canBroadcast c) \<Longrightarrow> after_failed_check (roomhelp c) = []"
  by (simp add: roomhelp_def guarded_stops after_failed_check_Cons)

lemma restarthelp_stops: "\<not> fst (canBroadcast c) \<Longrightarrow> after_failed_check (restarthelp c) = []"
  by (simp add: restarthelp_def guarded_stops after_failed_check_Cons)

lemma rules_stops: "\<not> fst (canBroadcast c) \<Longrightarrow> after_failed_check (rules c) = []"
  by (simp add: rules_def guarded_stops after_failed_check_Cons)

lemma faq_stops: "\<not> fst (canBroadcast c) \<Longrightarrow> after_failed_check (faq c) = []"
  unfolding faq_def by (rule guarded_stops)

lemma tiers_stops: "\<not> fst (canBroadcast c) \<Longrightarrow> after_failed_check (tiers c) = []"
  unfolding tiers_def by (rule guarded_stops)

lemma smogdex_stops: "\<not> fst (canBroadcast c) \<Longrightarrow> after_failed_check (smogdex c) = []"
  unfolding smogdex_def by (rule guarded_stops)

lemma crymeariver_stops: "\<not> fst (canBroadcast c) \<Longrightarrow> after_failed_check (crymeariver c) = []"
  unfolding crymeariver_def by (rule guarded_stops)

lemma queenofthecastle_stops: "\<not> fst (canBroadcast c) \<Longrightarrow> after_failed_check (queenofthecastle c) = []"
  unfolding queenofthecastle_def by (rule guarded_stops)

lemma crushhiswang_stops: "\<not> fst (canBroadcast c) \<Longrightarrow> after_failed_check (crushhiswang c) = []"
  unfolding crushhiswang_def by (rule guarded_stops)

lemma firepunch_stops: "\<not> fst (canBroadcast c) \<Longrightarrow> after_failed_check (firepunch c) = []"
  unfolding firepunch_def by (rule guarded_stops)

lemma lieren_stops: "\<not> fst (canBroadcast c) \<Longrightarrow> after_failed_check (lieren c) = []"
  unfolding lieren_def by (rule guarded_stops)

lemma iceblast_stops: "\<not> fst (canBroadcast c) \<Longrightarrow> after_failed_check (iceblast c) = []"
  unfolding iceblast_def by (rule guarded_stops)

lemma combatskirts_stops: "\<not> fst (canBroadcast c) \<Longrightarrow> after_failed_check (combatskirts c) = []"
  unfolding combatskirts_def by (rule guarded_stops)

lemma dexholders_stops: "\<not> fst (canBroadcast c) \<Longrightarrow> after_failed_check (dexholders c) = []"
  unfolding dexholders_def by (rule guarded_stops)

lemma nora_stops: "\<not> fst (canBroadcast c) \<Longrightarrow> after_failed_check (nora c) = []"
  unfolding nora_def by (rule guarded_stops)

lemma rockshurt_stops: "\<not> fst (canBroadcast c) \<Longrightarrow> after_failed_check (rockshurt c) = []"
  unfolding rockshurt_def by (rule guarded_stops)

lemma owch_stops: "\<not> fst (canBroadcast c) \<Longrightarrow> after_failed_check (owch c) = []"
  unfolding owch_def by (rule guarded_stops)

lemma treessuck_stops: "\<not> fst (canBroadcast c) \<Longrightarrow> after_failed_check (treessuck c) = []"
  unfolding treessuck_def by (rule guarded_stops)

lemma throw_stops: "\<not> fst (canBroadcast c) \<Longrightarrow> after_failed_check (throw c) = []"
  unfolding throw_def by (rule guarded_stops)

lemma spoilerwarning_stops: "\<not> fst (canBroadcast c) \<Longrightarrow> after_failed_check (spoilerwarning c) = []"
  unfolding spoilerwarning_def by (rule guarded_stops)

lemma iburn_stops: "\<not> fst (canBroadcast c) \<Longrightarrow> after_failed_check (iburn c) = []"
  unfolding iburn_def by (rule guarded_stops)

lemma comeatme_stops: "\<not> fst (canBroadcast c) \<Longrightarrow> after_failed_check (comeatme c) = []"
  unfolding comeatme_def by (rule guarded_stops)

lemma wukong_stops: "\<not> fst (canBroadcast c) \<Longrightarrow> after_failed_check (wukong c) = []"
  unfolding wukong_def by (rule guarded_stops)

lemma adam_stops: "\<not> fst (canBroadcast c) \<Longrightarrow> after_failed_check (adam c) = []"
  unfolding adam_def by (rule guarded_stops)

lemma ama_stops: "\<not> fst (canBroadcast c) \<Longrightarrow> after_failed_check (ama c) = []"
  unfolding ama_def by (rule guarded_stops)

lemma kissandmakeup_stops: "\<not> fst (canBroadcast c) \<Longrightarrow> after_failed_check (kissandmakeup c) = []"
  unfolding kissandmakeup_def by (rule guarded_stops)

lemma demon_stops: "\<not> fst (canBroadcast c) \<Longrightarrow> after_failed_check (demon c) = []"
  unfolding demon_def by (rule guarded_stops)

lemma lyn_stops: "\<not> fst (canBroadcast c) \<Longrightarrow> after_failed_check (lyn c) = []"
  unfolding lyn_def by (rule guarded_stops)

lemma lucina_stops: "\<not> fst (canBroadcast c) \<Longrightarrow> after_failed_check (lucina c) = []"
  unfolding lucina_def by (rule guarded_stops)

lemma yay_stops: "\<not> fst (canBroadcast c) \<Longrightarrow> after_failed_check (yay c) = []"
  unfolding yay_def by (rule guarded_stops)

lemma dice_stops: "\<not> fst (canBroadcast c) \<Longrightarrow> after_failed_check (dice c) = []"
  unfolding dice_def by (rule guarded_stops)

lemma register_stops: "\<not> fst (canBroadcast c) \<Longrightarrow> after_failed_check (register c) = []"
  unfolding register_def by (rule guarded_stops)

lemma ruby_stops: "\<not> fst (canBroadcast c) \<Longrightarrow> after_failed_check (ruby c) = []"
  unfolding ruby_def by (rule guarded_stops)

lemma lily_stops: "\<not> fst (canBroadcast c) \<Longrightarrow> after_failed_check (lily c) = []"
  unfolding lily_def by (rule guarded_stops)

lemma xathoz_stops: "\<not> fst (canBroadcast c) \<Longrightarrow> after_failed_check (xathoz c) = []"
  unfolding xathoz_def by (rule guarded_stops)

lemma red_stops: "\<not> fst (canBroadcast c) \<Longrightarrow> after_failed_check (red c) = []"
  unfolding red_def by (rule guarded_stops)

lemma blair_stops: "\<not> fst (canBroadcast c) \<Longrightarrow> after_failed_check (blair c) = []"
  unfolding blair_def by (rule guarded_stops)

lemma atom_stops: "\<not> fst (canBroadcast c) \<Longrightarrow> after_failed_check (atom c) = []"
  unfolding atom_def by (rule guarded_stops)

lemma fluffy_stops: "\<not> fst (canBroadcast c) \<Longrightarrow> after_failed_check (fluffy c) = []"
  unfolding fluffy_def by (rule guarded_stops)

lemma lynn_stops: "\<not> fst (canBroadcast c) \<Longrightarrow> after_failed_check (lynn c) = []"
  unfolding lynn_def by (rule guarded_stops)

lemma cosy_stops: "\<not> fst (canBroadcast c) \<Longrightarrow> after_failed_check (cosy c) = []"
  unfolding cosy_def by (rule guarded_stops)

lemma missing1_stops: "\<not> fst (canBroadcast c) \<Longrightarrow> after_failed_check (missing1 c) = []"
  unfolding missing1_def by (rule guarded_stops)

lemma aaron_stops: "\<not> fst (canBroadcast c) \<Longrightarrow> after_failed_check (aaron c) = []"
  unfolding aaron_def by (rule guarded_stops)

lemma raven_stops: "\<not> fst (canBroadcast c) \<Longrightarrow> after_failed_check (raven c) = []"
  unfolding raven_def by (rule guarded_stops)

lemma kolotos_stops: "\<not> fst (canBroadcast c) \<Longrightarrow> after_failed_check (kolotos c) = []"
  unfolding kolotos_def by (rule guarded_stops)

lemmas handlers_stop =
  data_stops dexsearch_stops learn_stops effectiveness_stops uptime_stops groups_stops
  website_stops forum_stops opensource_stops avatars_stops intro_stops smogintro_stops
  calc_stops cap_stops gennext_stops othermetas_stops roomhelp_stops restarthelp_stops
  rules_stops faq_stops tiers_stops smogdex_stops crymeariver_stops
  queenofthecastle_stops crushhiswang_stops firepunch_stops lieren_stops iceblast_stops
  combatskirts_stops dexholders_stops nora_stops rockshurt_stops owch_stops
  treessuck_stops throw_stops spoilerwarning_stops iburn_stops comeatme_stops
  wukong_stops adam_stops ama_stops kissandmakeup_stops demon_stops lyn_stops
  lucina_stops yay_stops dice_stops register_stops ruby_stops lily_stops xathoz_stops
  red_stops blair_stops atom_stops fluffy_stops lynn_stops cosy_stops missing1_stops
  aaron_stops raven_stops kolotos_stops

text \<open>
  Claim C8. \<open>broadcast_handlers\<close> lists the 61 handlers of the table that call
  \<open>this.canBroadcast()\<close>. When the check fails, each of them returns at once: after
  the failed check its trace holds no event, so it neither replies nor writes shared
  state.
\<close>

theorem handlers_return_after_failed_broadcast:
  assumes "(name, h) \<in> set broadcast_handlers" and "\<not> fst (canBroadcast c)"
  shows "after_failed_check (h c) = []"
proof -
  have "list_all (\<lambda>(name, h). after_failed_check (h c) = []) broadcast_handlers"
    unfolding broadcast_handlers_def list_all_Cons_iff list_all_Nil_iff prod.case
    by (intro conjI TrueI handlers_stop [OF assms(2)])
  with assms(1) show ?thesis by (auto simp: list_all_iff)
qed

theorem handlers_return_after_failed_broadcast_witness:
  "(''groups'', groups) \<in> set broadcast_handlers
   \<and> \<not> fst (canBroadcast (denied_ctx []))
   \<and> groups (denied_ctx []) = [BroadcastCheck False]
   \<and> after_failed_check (groups (denied_ctx [])) = []"
proof -
  have m: "(''groups'', groups) \<in> set broadcast_handlers"
    unfolding broadcast_handlers_def by (simp only: list.set insert_iff simp_thms)
  have d: "\<not> fst (canBroadcast (denied_ctx []))"
    by (simp add: canBroadcast_def denied_ctx_def ex_ctx_def)
  have g: "groups (denied_ctx []) = [BroadcastCheck False]"
    unfolding groups_def by (rule guarded_failed [OF d])
  from handlers_return_after_failed_broadcast [OF m d] m d g show ?thesis by simp
qed

subsection \<open>After a denied permission check\<close>

text \<open>
  Claim C9. When \<open>this.can\<close> answers false, the handler behind it does nothing more:
  its trace is the check alone (with the one notice of the gate), so \<open>/rules\<close> with a
  target leaves \<open>room.rulesLink\<close> as it was and \<open>/potd\<close> leaves \<open>config.potd\<close> as it
  was; the same holds of the other three handlers that call \<open>this.can\<close>.
\<close>

theorem denied_permission_aborts:
  "(target c \<noteq> [] \<and> \<not> can c ''roommod'' \<longrightarrow>
      rules c = [PermissionCheck ''roommod'' False]
      \<and> apply_events (rules c) w = w \<and> \<not> list_ex is_output (rules c))
   \<and> (\<not> can c ''potd'' \<longrightarrow>
      potd c = [PermissionCheck ''potd'' False]
      \<and> apply_events (potd c) w = w \<and> \<not> list_ex is_output (potd c))
   \<and> (\<not> can c ''rangeban'' \<longrightarrow> ipsearch c users = [PermissionCheck ''rangeban'' False])
   \<and> (\<not> can c ''battlemessage'' \<longrightarrow> a_cmd c = [PermissionCheck ''battlemessage'' False])
   \<and> (room_id c = ''lobby'' \<and> \<not> can c ''lockdown'' \<longrightarrow>
      restarthelp c = [PermissionCheck ''lockdown'' False])"
  by (simp add: rules_def potd_def ipsearch_def a_cmd_def restarthelp_def
      apply_events_def is_output_def)

theorem denied_permission_aborts_witness:
  "target rules_ctx \<noteq> [] \<and> \<not> can rules_ctx ''roommod'' \<and> \<not> can rules_ctx ''potd''
   \<and> rules rules_ctx = [PermissionCheck ''roommod'' False]
   \<and> potd rules_ctx = [PermissionCheck ''potd'' False]
   \<and> rulesLink (apply_events (rules rules_ctx) old_world) = Some ''old''
   \<and> config_potd (apply_events (potd rules_ctx) old_world) = ''mew''
   \<and> rulesLink (apply_events (rules (rules_ctx\<lparr>can := \<lambda>p. True\<rparr>)) old_world)
       = Some ''http://example.com/rules''
   \<and> config_potd (apply_events (potd (rules_ctx\<lparr>can := \<lambda>p. True\<rparr>)) old_world)
       = ''http://example.com/rules''"
proof -
  have h: "target rules_ctx \<noteq> []" "\<not> can rules_ctx ''roommod''" "\<not> can rules_ctx ''potd''"
    by (simp_all add: rules_ctx_def ex_ctx_def)
  have g: "rulesLink (apply_events (rules (rules_ctx\<lparr>can := \<lambda>p. True\<rparr>)) old_world)
             = Some ''http://example.com/rules''"
    "config_potd (apply_events (potd (rules_ctx\<lparr>can := \<lambda>p. True\<rparr>)) old_world)
       = ''http://example.com/rules''"
    by code_simp+
  have o: "rulesLink old_world = Some ''old''" "config_potd old_world = ''mew''"
    by (simp_all add: old_world_def)
  from denied_permission_aborts [of rules_ctx old_world] h g o show ?thesis
    by (simp add: apply_events_def)
qed

subsection \<open>The IP line of whois\<close>

lemma previous_names_no_ip: "ev \<in> set (previous_names u) \<Longrightarrow> \<not> is_ip_line ev"
  by (auto simp: previous_names_def Let_def is_ip_line_def split: if_splits)

lemma alt_replies_no_ip: "ev \<in> set (alt_replies e a) \<Longrightarrow> \<not> is_ip_line ev"
  by (auto simp: alt_replies_def Let_def is_ip_line_def dest: previous_names_no_ip
      split: if_splits)

text \<open>
  Claim C10. whois sends the line of IP addresses only when the invocation is not
  broadcasting and the user either holds the capability "ip" over the target or is the
  target; so no reply of a broadcasting whois is the IP line.
\<close>

theorem whois_ip_line_guarded:
  "(\<forall>ev \<in> set (whois c e). is_ip_line ev \<longrightarrow>
       \<not> broadcasting c
       \<and> (\<exists>targetUser. w_targetUser e = Some targetUser
             \<and> (user_can e ''ip'' targetUser \<or> u_ref (w_user e) = u_ref targetUser)))
   \<and> (broadcasting c \<longrightarrow> \<not> list_ex is_ip_line (whois c e))"
proof -
  have main: "\<not> broadcasting c
       \<and> (\<exists>targetUser. w_targetUser e = Some targetUser
             \<and> (user_can e ''ip'' targetUser \<or> u_ref (w_user e) = u_ref targetUser))"
    if "ev \<in> set (whois c e)" and "is_ip_line ev" for ev
  proof (cases "w_targetUser e")
    case None
    with that show ?thesis by (auto simp: whois_def is_ip_line_def)
  next
    case (Some t)
    show ?thesis
    proof (rule ccontr)
      assume neg: "\<not> ?thesis"
      with Some have off: "\<not> (\<not> broadcasting c \<and> (user_can e ''ip'' t \<or> u_ref (w_user e) = u_ref t))"
        by auto
      from that(1) Some off have "\<not> is_ip_line ev"
        by (auto simp: whois_def is_ip_line_def
            dest: previous_names_no_ip alt_replies_no_ip split: option.splits if_splits)
      with that(2) show False by simp
    qed
  qed
  then show ?thesis by (auto simp: list_ex_iff)
qed

theorem whois_ip_line_guarded_witness:
  "SendReply ''IP: 10.0.0.1'' \<in> set (whois (ex_ctx [] []) self_env)
   \<and> is_ip_line (SendReply ''IP: 10.0.0.1'')
   \<and> \<not> broadcasting (ex_ctx [] [])
   \<and> w_targetUser self_env = Some alice
   \<and> u_ref (w_user self_env) = u_ref alice
   \<and> broadcasting ((ex_ctx [] [])\<lparr>broadcasting := True\<rparr>)
   \<and> \<not> list_ex is_ip_line (whois ((ex_ctx [] [])\<lparr>broadcasting := True\<rparr>) self_env)"
proof -
  have m: "SendReply ''IP: 10.0.0.1'' \<in> set (whois (ex_ctx [] []) self_env)"
    and i: "is_ip_line (SendReply ''IP: 10.0.0.1'')"
    and t: "w_targetUser self_env = Some alice"
    and b: "broadcasting ((ex_ctx [] [])\<lparr>broadcasting := True\<rparr>)"
    by code_simp+
  from whois_ip_line_guarded [of "ex_ctx [] []" self_env] m i t
  have "\<not> broadcasting (ex_ctx [] [])" "u_ref (w_user self_env) = u_ref alice"
    by (auto simp: self_env_def)
  moreover from whois_ip_line_guarded [of "(ex_ctx [] [])\<lparr>broadcasting := True\<rparr>" self_env] b
  have "\<not> list_ex is_ip_line (whois ((ex_ctx [] [])\<lparr>broadcasting := True\<rparr>) self_env)"
    by blast
  ultimately show ?thesis using m i t b by simp
qed

end
